theory Spec2Isabelle
  imports Complex_Main
begin

section \<open>The icon generator \<^verbatim>\<open>create-icons.py\<close>\<close>

text \<open>
  The script imports the imaging library, defines \<^verbatim>\<open>create_icon(size, filename)\<close>, calls
  it for the sizes 16, 32, 48 and 128, and prints a banner; two \<^verbatim>\<open>except\<close> clauses around
  the whole body print remedial text. Everything the script does beyond arithmetic is a
  call into a library (Pillow, \<^verbatim>\<open>os\<close>, \<^verbatim>\<open>print\<close>). The model keeps the script's own control
  flow and arithmetic exactly, and takes the libraries as a parameter \<open>env\<close>: what a call
  returns and whether it raises is decided by the environment, what a successful call
  does to the file system, the output stream and the bitmap is fixed below.
\<close>

subsection \<open>Exceptions\<close>

text \<open>
  The script has three kinds of handler: a bare \<^verbatim>\<open>except:\<close> (line 22), \<^verbatim>\<open>except ImportError:\<close>
  (line 56) and \<^verbatim>\<open>except Exception as e:\<close> (line 65). An exception is therefore modelled by
  the most specific of the three classes it is an instance of, and by \<^verbatim>\<open>str(e)\<close>.
  \<open>NonException\<close> stands for the classes derived from \<^verbatim>\<open>BaseException\<close> only
  (\<^verbatim>\<open>KeyboardInterrupt\<close>, \<^verbatim>\<open>SystemExit\<close>, \<^verbatim>\<open>GeneratorExit\<close>).
\<close>

datatype exc_class = ImportError | OtherException | NonException

datatype exn = Exn (exn_class: exc_class) (exn_str: string)

subsection \<open>The font size: \<^verbatim>\<open>int(size * 0.6)\<close>\<close>

text \<open>
  \<^verbatim>\<open>size * 0.6\<close> converts the integer to a double, multiplies it by the double nearest to
  0.6, which is \<open>5404319552844595 / 2^53\<close>, and rounds the product to a double; \<^verbatim>\<open>int\<close>
  truncates towards zero. Both roundings are to nearest, ties to even, at 53 significant
  bits. The model computes them on integers: a double that is a multiple of \<open>2^-53\<close> is
  represented by its numerator over \<open>2^53\<close>.
\<close>

fun bit_length :: "nat \<Rightarrow> nat" where
  "bit_length n = (if n = 0 then 0 else Suc (bit_length (n div 2)))"

declare bit_length.simps [simp del]

definition round_to_53_bits :: "int \<Rightarrow> int" where
  "round_to_53_bits v =
     (let a = \<bar>v\<bar>; l = bit_length (nat a) in
      if l \<le> 53 then v
      else let d = 2 ^ (l - 53); q = a div d; r = a mod d;
               q' = (if d < 2 * r \<or> (2 * r = d \<and> odd q) then q + 1 else q)
           in sgn v * (q' * d))"

definition float_of_int :: "int \<Rightarrow> exn + int" where
  \<comment> \<open>the double nearest to an integer, itself an integer; too large an integer raises\<close>
  "float_of_int n =
     (let x = round_to_53_bits n in
      if 2 ^ 1024 \<le> \<bar>x\<bar> then Inl (Exn OtherException ''int too large to convert to float'')
      else Inr x)"

definition times_0_6 :: "int \<Rightarrow> int" where
  \<comment> \<open>the double \<open>x * 0.6\<close> for an integer-valued double \<open>x\<close>, as a numerator over \<open>2^53\<close>\<close>
  "times_0_6 x = round_to_53_bits (x * 5404319552844595)"

definition int_of_float :: "int \<Rightarrow> int" where
  \<comment> \<open>\<^verbatim>\<open>int(f)\<close> for the double \<open>f = r / 2^53\<close>: truncation towards zero\<close>
  "int_of_float r = sgn r * (\<bar>r\<bar> div 2 ^ 53)"

definition font_size :: "int \<Rightarrow> exn + int" where
  "font_size sz =
     (case float_of_int sz of
        Inl e \<Rightarrow> Inl e
      | Inr x \<Rightarrow> Inr (int_of_float (times_0_6 x)))"

subsection \<open>Strings\<close>

text \<open>
  Strings are byte strings; the four emoji of the messages are written as their UTF-8
  bytes. \<open>str_of_int\<close> is the decimal form an f-string gives an integer.
\<close>

fun str_of_nat :: "nat \<Rightarrow> string" where
  "str_of_nat n =
     (if n < 10 then [''0123456789'' ! n]
      else str_of_nat (n div 10) @ [''0123456789'' ! (n mod 10)])"

declare str_of_nat.simps [simp del]

definition str_of_int :: "int \<Rightarrow> string" where
  "str_of_int i = (if i < 0 then ''-'' @ str_of_nat (nat (- i)) else str_of_nat (nat i))"

definition check_mark :: string where
  "check_mark = [CHR 0xE2, CHR 0x9C, CHR 0x85]"

definition cross_mark :: string where
  "cross_mark = [CHR 0xE2, CHR 0x9D, CHR 0x8C]"

definition party_popper :: string where
  "party_popper = [CHR 0xF0, CHR 0x9F, CHR 0x8E, CHR 0x89]"

definition memo :: string where
  "memo = [CHR 0xF0, CHR 0x9F, CHR 0x93, CHR 0x9D]"

subsection \<open>Bitmaps, the world, and the library\<close>

type_synonym rgb = "nat \<times> nat \<times> nat"

definition hex_4285f4 :: rgb where
  "hex_4285f4 = (0x42, 0x85, 0xf4)"

definition white :: rgb where
  "white = (255, 255, 255)"

record image =
  mode :: string
  width :: int
  height :: int
  pixels :: "int \<times> int \<rightharpoonup> rgb"

datatype font = Font nat

text \<open>
  The library calls the script makes, with their arguments; the world keeps them in the
  order they are made, each with its outcome. \<open>Call_load_default\<close> carries the optional
  \<^verbatim>\<open>size\<close> argument of \<^verbatim>\<open>ImageFont.load_default\<close>.
\<close>

datatype call =
    Call_import_PIL
  | Call_Image_new string "int \<times> int" rgb
  | Call_Draw
  | Call_load_default "int option"
  | Call_textbbox "int \<times> int" string "font option"
  | Call_text "int \<times> int" string rgb "font option"
  | Call_makedirs string bool
  | Call_save string
  | Call_print string

datatype outcome = Returned | Raised exn

record world =
  files :: "string \<rightharpoonup> image"
  dirs :: "string set"
  stdout :: "string list"
  calls :: "(call \<times> outcome) list"

text \<open>
  The environment: for each library call whether it raises in the current world, and
  the values the imaging library computes (the default font, the bounding box of a text,
  the pixels a text covers with their new colours).
\<close>

record env =
  import_fails :: "world \<Rightarrow> exn option"
  Image_new_fails :: "world \<Rightarrow> int \<times> int \<Rightarrow> exn option"
  Draw_fails :: "world \<Rightarrow> image \<Rightarrow> exn option"
  load_default_fails :: "world \<Rightarrow> exn option"
  default_font :: font
  textbbox_fails :: "world \<Rightarrow> image \<Rightarrow> font option \<Rightarrow> exn option"
  text_bbox :: "int \<times> int \<Rightarrow> string \<Rightarrow> font option \<Rightarrow> int \<times> int \<times> int \<times> int"
  text_fails :: "world \<Rightarrow> image \<Rightarrow> int \<times> int \<Rightarrow> font option \<Rightarrow> exn option"
  text_cover :: "image \<Rightarrow> int \<times> int \<Rightarrow> string \<Rightarrow> rgb \<Rightarrow> font option \<Rightarrow> ((int \<times> int) \<times> rgb) list"
  makedirs_fails :: "world \<Rightarrow> string \<Rightarrow> exn option"
  save_fails :: "world \<Rightarrow> string \<Rightarrow> image \<Rightarrow> exn option"
  print_fails :: "world \<Rightarrow> string \<Rightarrow> exn option"

text \<open>
  A statement either raises or returns a value; in both cases the world it has changed
  so far stays changed.
\<close>

type_synonym 'a io = "world \<Rightarrow> (exn + 'a) \<times> world"

definition io_return :: "'a \<Rightarrow> 'a io" where
  "io_return a w = (Inr a, w)"

definition io_raise :: "exn \<Rightarrow> 'a io" where
  "io_raise e w = (Inl e, w)"

definition io_bind :: "'a io \<Rightarrow> ('a \<Rightarrow> 'b io) \<Rightarrow> 'b io" where
  "io_bind m f w = (case m w of (Inl e, w') \<Rightarrow> (Inl e, w') | (Inr a, w') \<Rightarrow> f a w')"

definition log_call :: "call \<Rightarrow> outcome \<Rightarrow> world \<Rightarrow> world" where
  "log_call c out w = w\<lparr>calls := calls w @ [(c, out)]\<rparr>"

definition new_calls :: "world \<Rightarrow> world \<Rightarrow> (call \<times> outcome) list" where
  \<comment> \<open>the calls made on the way from one world to a later one\<close>
  "new_calls w w' = drop (length (calls w)) (calls w')"

definition lib_call :: "call \<Rightarrow> exn option \<Rightarrow> 'a \<Rightarrow> (world \<Rightarrow> world) \<Rightarrow> world \<Rightarrow> (exn + 'a) \<times> world" where
  \<comment> \<open>a library call: logged; if it raises nothing else happens, else its effect and result\<close>
  "lib_call c failure result effect w =
     (case failure of
        Some e \<Rightarrow> (Inl e, log_call c (Raised e) w)
      | None \<Rightarrow> (Inr result, effect (log_call c Returned w)))"

definition import_PIL :: "env \<Rightarrow> unit io" where
  "import_PIL env w = lib_call Call_import_PIL (import_fails env w) () id w"

definition blank :: "string \<Rightarrow> int \<times> int \<Rightarrow> rgb \<Rightarrow> image" where
  \<comment> \<open>a bitmap of the given mode and size, every pixel of the given colour\<close>
  "blank m sz colour =
     \<lparr>mode = m, width = fst sz, height = snd sz,
      pixels = (\<lambda>(x, y). if 0 \<le> x \<and> x < fst sz \<and> 0 \<le> y \<and> y < snd sz
                           then Some colour else None)\<rparr>"

definition Image_new :: "env \<Rightarrow> string \<Rightarrow> int \<times> int \<Rightarrow> rgb \<Rightarrow> image io" where
  "Image_new env m sz colour w =
     lib_call (Call_Image_new m sz colour) (Image_new_fails env w sz) (blank m sz colour) id w"

definition ImageDraw_Draw :: "env \<Rightarrow> image \<Rightarrow> unit io" where
  \<comment> \<open>the drawing handle refers to the image it was made for; it holds no data of its own\<close>
  "ImageDraw_Draw env img w = lib_call Call_Draw (Draw_fails env w img) () id w"

definition load_default :: "env \<Rightarrow> int option \<Rightarrow> font io" where
  "load_default env size_arg w =
     lib_call (Call_load_default size_arg) (load_default_fails env w) (default_font env) id w"

definition textbbox :: "env \<Rightarrow> image \<Rightarrow> int \<times> int \<Rightarrow> string \<Rightarrow> font option \<Rightarrow> (int \<times> int \<times> int \<times> int) io" where
  "textbbox env img xy s f w =
     lib_call (Call_textbbox xy s f) (textbbox_fails env w img f) (text_bbox env xy s f) id w"

definition paint :: "((int \<times> int) \<times> rgb) list \<Rightarrow> (int \<times> int \<rightharpoonup> rgb) \<Rightarrow> (int \<times> int \<rightharpoonup> rgb)" where
  \<comment> \<open>only pixels of the bitmap are written\<close>
  "paint cover px = fold (\<lambda>(p, c) m. if p \<in> dom m then m(p \<mapsto> c) else m) cover px"

definition draw_text :: "env \<Rightarrow> image \<Rightarrow> int \<times> int \<Rightarrow> string \<Rightarrow> rgb \<Rightarrow> font option \<Rightarrow> image io" where
  \<comment> \<open>\<^verbatim>\<open>draw.text\<close> changes the image in place; the model returns the changed image\<close>
  "draw_text env img xy s fill f w =
     lib_call (Call_text xy s fill f) (text_fails env w img xy f)
       (img\<lparr>pixels := paint (text_cover env img xy s fill f) (pixels img)\<rparr>) id w"

definition makedirs :: "env \<Rightarrow> string \<Rightarrow> bool \<Rightarrow> unit io" where
  \<comment> \<open>\<open>dirs\<close> holds the directories created, parents implied\<close>
  "makedirs env path exist_ok w =
     lib_call (Call_makedirs path exist_ok)
       (if \<not> exist_ok \<and> path \<in> dirs w then Some (Exn OtherException ''File exists'')
        else makedirs_fails env w path)
       () (\<lambda>w'. w'\<lparr>dirs := insert path (dirs w')\<rparr>) w"

definition save :: "env \<Rightarrow> image \<Rightarrow> string \<Rightarrow> unit io" where
  "save env img path w =
     lib_call (Call_save path) (save_fails env w path img) ()
       (\<lambda>w'. w'\<lparr>files := (files w')(path \<mapsto> img)\<rparr>) w"

definition print :: "env \<Rightarrow> string \<Rightarrow> unit io" where
  "print env s w =
     lib_call (Call_print s) (print_fails env w s) ()
       (\<lambda>w'. w'\<lparr>stdout := stdout w' @ [s]\<rparr>) w"

subsection \<open>\<^verbatim>\<open>create_icon\<close>\<close>

definition try_load_default :: "env \<Rightarrow> font option io" where
  \<comment> \<open>lines 19 to 23: the bare \<^verbatim>\<open>except\<close> catches every exception\<close>
  "try_load_default env w =
     (case load_default env None w of
        (Inl e, w') \<Rightarrow> (Inr None, w')
      | (Inr f, w') \<Rightarrow> (Inr (Some f), w'))"

definition measure_text :: "env \<Rightarrow> image \<Rightarrow> string \<Rightarrow> font option \<Rightarrow> int \<Rightarrow> (int \<times> int) io" where
  \<comment> \<open>lines 27 to 34: \<open>(text_width, text_height)\<close>\<close>
  "measure_text env img s f fs =
     (case f of
        Some fnt \<Rightarrow>
          io_bind (textbbox env img (0, 0) s f)
            (\<lambda>(l, t, r, b). io_return (r - l, b - t))
      | None \<Rightarrow> io_return (fs div 2, fs))"

definition icons_dir :: string where
  "icons_dir = ''extension/icons''"

definition icon_path :: "string \<Rightarrow> string" where
  "icon_path filename = ''extension/icons/'' @ filename"

definition created_line :: "string \<Rightarrow> int \<Rightarrow> string" where
  "created_line filename sz =
     check_mark @ '' Created '' @ filename @ '' ('' @ str_of_int sz @ ''x'' @ str_of_int sz @ '')''"

definition create_icon :: "env \<Rightarrow> int \<Rightarrow> string \<Rightarrow> unit io" where
  "create_icon env sz filename =
     io_bind (Image_new env ''RGB'' (sz, sz) hex_4285f4) (\<lambda>img.
     io_bind (ImageDraw_Draw env img) (\<lambda>_.
     io_bind (case font_size sz of Inl e \<Rightarrow> io_raise e | Inr fs \<Rightarrow> io_return fs) (\<lambda>fs.
     io_bind (try_load_default env) (\<lambda>f.
     io_bind (measure_text env img ''S'' f fs) (\<lambda>(text_width, text_height).
     io_bind (draw_text env img ((sz - text_width) div 2, (sz - text_height) div 2)
                ''S'' white f) (\<lambda>img'.
     io_bind (makedirs env icons_dir True) (\<lambda>_.
     io_bind (save env img' (icon_path filename)) (\<lambda>_.
     print env (created_line filename sz)))))))))"

subsection \<open>The script\<close>

definition success_banner :: "string list" where
  "success_banner =
     [ [CHR 0x0A] @ party_popper @ '' All icons created successfully!'',
      memo @ '' You can now re-enable icons in manifest.json'',
      ''   Uncomment the 'default_icon' and 'icons' sections'']"

definition import_error_lines :: "string list" where
  "import_error_lines =
     [cross_mark @ '' PIL (Pillow) not found. Install it with:'',
      ''   pip install Pillow'',
      [CHR 0x0A] @ ''Alternatively, create icons manually:'',
      ''1. Use any image editor to create 16x16, 32x32, 48x48, 128x128 PNG files'',
      ''2. Save them as icon16.png, icon32.png, icon48.png, icon128.png'',
      ''3. Place them in extension/icons/ folder'',
      ''4. Re-enable icon references in manifest.json'']"

definition error_lines :: "exn \<Rightarrow> string list" where
  "error_lines e =
     [cross_mark @ '' Error creating icons: '' @ exn_str e,
      ''Please create icons manually or use online tools.'']"

fun print_all :: "env \<Rightarrow> string list \<Rightarrow> unit io" where
  \<comment> \<open>consecutive \<^verbatim>\<open>print\<close> statements\<close>
  "print_all env [] = io_return ()"
| "print_all env (s # ss) = io_bind (print env s) (\<lambda>_. print_all env ss)"

definition try_body :: "env \<Rightarrow> unit io" where
  \<comment> \<open>lines 7 to 54\<close>
  "try_body env =
     io_bind (import_PIL env) (\<lambda>_.
     io_bind (create_icon env 16 ''icon16.png'') (\<lambda>_.
     io_bind (create_icon env 32 ''icon32.png'') (\<lambda>_.
     io_bind (create_icon env 48 ''icon48.png'') (\<lambda>_.
     io_bind (create_icon env 128 ''icon128.png'') (\<lambda>_.
     print_all env success_banner)))))"

definition script :: "env \<Rightarrow> unit io" where
  \<comment> \<open>the whole file; \<open>Inl e\<close> is an exception no handler caught, or one raised in a handler\<close>
  "script env w =
     (case try_body env w of
        (Inr u, w') \<Rightarrow> (Inr u, w')
      | (Inl e, w') \<Rightarrow>
          (case exn_class e of
             ImportError \<Rightarrow> print_all env import_error_lines w'
           | OtherException \<Rightarrow> print_all env (error_lines e) w'
           | NonException \<Rightarrow> (Inl e, w')))"

subsection \<open>Names for what the statements below speak about\<close>

text \<open>
  The width and height that lines 27 to 34 compute, as a function of the font obtained
  and of the font size: the measured bounding box of \<^verbatim>\<open>'S'\<close> with a font, the estimate
  without one.
\<close>

definition glyph_extent :: "env \<Rightarrow> int \<Rightarrow> font option \<Rightarrow> int \<times> int" where
  "glyph_extent env fs f =
     (case f of
        Some fnt \<Rightarrow> (case text_bbox env (0, 0) ''S'' f of (l, t, r, b) \<Rightarrow> (r - l, b - t))
      | None \<Rightarrow> (fs div 2, fs))"

text \<open>The calls of the font step: loading raised, or loading and measuring returned.\<close>

definition font_step :: "env \<Rightarrow> font option \<Rightarrow> (call \<times> outcome) list \<Rightarrow> bool" where
  "font_step env f tr \<longleftrightarrow>
     (f = None \<and> (\<exists>e. tr = [(Call_load_default None, Raised e)])) \<or>
     (f = Some (default_font env) \<and>
      tr = [(Call_load_default None, Returned), (Call_textbbox (0, 0) ''S'' f, Returned)])"

text \<open>
  The worlds in which \<open>create_icon\<close>, started in \<open>w\<close>, makes its second, third and
  fourth call, when the calls before returned.
\<close>

definition at_Draw :: "int \<Rightarrow> world \<Rightarrow> world" where
  "at_Draw sz w = log_call (Call_Image_new ''RGB'' (sz, sz) hex_4285f4) Returned w"

definition at_load_default :: "int \<Rightarrow> world \<Rightarrow> world" where
  "at_load_default sz w = log_call Call_Draw Returned (at_Draw sz w)"

definition at_textbbox :: "int \<Rightarrow> world \<Rightarrow> world" where
  "at_textbbox sz w = log_call (Call_load_default None) Returned (at_load_default sz w)"

text \<open>The sizes of the bitmaps allocated and the paths of the files written, in order.\<close>

fun allocated :: "(call \<times> outcome) list \<Rightarrow> (int \<times> int) list" where
  "allocated [] = []"
| "allocated ((Call_Image_new m sz c, out) # tr) = sz # allocated tr"
| "allocated (_ # tr) = allocated tr"

fun saved :: "(call \<times> outcome) list \<Rightarrow> string list" where
  "saved [] = []"
| "saved ((Call_save path, Returned) # tr) = path # saved tr"
| "saved (_ # tr) = saved tr"

text \<open>The four calls of lines 47 to 50, and running a list of such calls one after another.\<close>

definition icons :: "(int \<times> string) list" where
  "icons = [(16, ''icon16.png''), (32, ''icon32.png''), (48, ''icon48.png''), (128, ''icon128.png'')]"

fun create_icons :: "env \<Rightarrow> (int \<times> string) list \<Rightarrow> unit io" where
  "create_icons env [] = io_return ()"
| "create_icons env ((sz, filename) # rest) =
     io_bind (create_icon env sz filename) (\<lambda>_. create_icons env rest)"

text \<open>
  Concrete environments and a concrete world: a library in which nothing raises and the
  default font measures \<^verbatim>\<open>'S'\<close> as 6 by 11 pixels at offset (0, 2) and covers two pixels,
  variants of it in which some call raises, and an empty world.
\<close>

definition env_ok :: env where
  "env_ok =
     \<lparr>import_fails = (\<lambda>w. None),
      Image_new_fails = (\<lambda>w sz. None),
      Draw_fails = (\<lambda>w img. None),
      load_default_fails = (\<lambda>w. None),
      default_font = Font 0,
      textbbox_fails = (\<lambda>w img f. None),
      text_bbox = (\<lambda>xy s f. (fst xy, snd xy + 2, fst xy + 6, snd xy + 13)),
      text_fails = (\<lambda>w img xy f. None),
      text_cover = (\<lambda>img xy s fill f. [((fst xy + 1, snd xy + 3), fill), ((fst xy + 2, snd xy + 3), fill)]),
      makedirs_fails = (\<lambda>w path. None),
      save_fails = (\<lambda>w path img. None),
      print_fails = (\<lambda>w s. None)\<rparr>"

definition env_no_font :: env where
  \<comment> \<open>the same library, but loading the default font raises\<close>
  "env_no_font = env_ok\<lparr>load_default_fails := (\<lambda>w. Some (Exn OtherException ''cannot open resource''))\<rparr>"

definition env_no_PIL :: env where
  \<comment> \<open>the imaging library is not installed\<close>
  "env_no_PIL = env_ok\<lparr>import_fails := (\<lambda>w. Some (Exn ImportError ''No module named PIL''))\<rparr>"

definition env_bbox_fails :: env where
  \<comment> \<open>the font loads, measuring raises on the bitmap of 32 by 32 pixels\<close>
  "env_bbox_fails =
     env_ok\<lparr>textbbox_fails := (\<lambda>w img f.
       if width img = 32 then Some (Exn OtherException ''bad glyph'') else None)\<rparr>"

definition env_disk_full :: env where
  \<comment> \<open>saving the third icon raises\<close>
  "env_disk_full =
     env_ok\<lparr>save_fails := (\<lambda>w path img.
       if path = ''extension/icons/icon48.png'' then Some (Exn OtherException ''No space left on device'')
       else None)\<rparr>"

definition env_no_emoji :: env where
  \<comment> \<open>the output stream encodes ASCII only: printing a line with an emoji raises\<close>
  "env_no_emoji =
     env_ok\<lparr>print_fails := (\<lambda>w s.
       if list_ex (\<lambda>c. 128 \<le> (of_char c :: nat)) s
       then Some (Exn OtherException ''codec cannot encode character'')
       else None)\<rparr>"

definition w0 :: world where
  "w0 = \<lparr>files = Map.empty, dirs = {}, stdout = [], calls = []\<rparr>"

section \<open>The font size is three fifths of the size, rounded down\<close>

text \<open>
  Rounding to nearest at a spacing \<open>d\<close> cannot cross a multiple of \<open>d\<close>: a value
  less than half a step below a multiple rounds up to it or beyond, a value more
  than half a step below a multiple stays below it.
\<close>

lemma div_mod_bounds:
  fixes a d :: int
  assumes "0 < d"
  shows "(a div d) * d \<le> a" "a < (a div d) * d + d" "a mod d = a - (a div d) * d"
proof -
  have "a = (a div d) * d + a mod d" by simp
  moreover have "0 \<le> a mod d" "a mod d < d" using assms by simp_all
  ultimately show "(a div d) * d \<le> a" "a < (a div d) * d + d" "a mod d = a - (a div d) * d"
    by linarith+
qed

lemma round_lower:
  fixes a d A :: int
  assumes "0 < d" "d dvd A" "2 * (A - a) < d"
  shows "A \<le> (if d < 2 * (a mod d) \<or> (2 * (a mod d) = d \<and> odd (a div d)) then a div d + 1 else a div d) * d"
proof -
  from \<open>d dvd A\<close> obtain k where A: "A = k * d" by (auto simp: dvd_def mult.commute)
  define q where "q = a div d"
  note b = div_mod_bounds[OF \<open>0 < d\<close>, of a, folded q_def]
  show ?thesis
  proof (cases "k \<le> q")
    case True
    then have "k * d \<le> q * d" using \<open>0 < d\<close> by (simp add: mult_right_mono)
    moreover have "q * d \<le> (q + 1) * d" using \<open>0 < d\<close> by (simp add: algebra_simps)
    ultimately show ?thesis using A by (auto simp: q_def)
  next
    case False
    then have "q + 1 \<le> k" by simp
    then have "(q + 1) * d \<le> k * d" using \<open>0 < d\<close> by (simp add: mult_right_mono del: distrib_right_numeral)
    then have ge: "q * d + d \<le> k * d" by (simp add: algebra_simps)
    have "k * d < (q + 2) * d" using b assms(3) A by (simp add: algebra_simps)
    then have "k < q + 2" using \<open>0 < d\<close> by (simp add: mult_less_cancel_right_pos)
    with \<open>q + 1 \<le> k\<close> have k: "k = q + 1" by simp
    have "d < 2 * (a mod d)" using b ge assms(3) A by (simp add: algebra_simps)
    then show ?thesis using k A by (simp add: q_def)
  qed
qed

lemma round_upper:
  fixes a d B :: int
  assumes "0 < d" "d dvd B" "d < 2 * (B - a)"
  shows "(if d < 2 * (a mod d) \<or> (2 * (a mod d) = d \<and> odd (a div d)) then a div d + 1 else a div d) * d < B"
proof -
  from \<open>d dvd B\<close> obtain k where B: "B = k * d" by (auto simp: dvd_def mult.commute)
  define q where "q = a div d"
  note b = div_mod_bounds[OF \<open>0 < d\<close>, of a, folded q_def]
  have "2 * a < 2 * (k * d)" using assms(1,3) unfolding B by (simp add: algebra_simps)
  then have "q * d < k * d" using b(1) by simp
  then have qk: "q < k" using \<open>0 < d\<close> by (simp add: mult_less_cancel_right_pos)
  show ?thesis
  proof (cases "q + 1 = k")
    case True
    then have k: "k = q + 1" by simp
    have "B = q * d + d" unfolding B k by (simp add: algebra_simps)
    then have "2 * (a mod d) < d" using b assms(3) by (simp add: algebra_simps)
    moreover have "q * d < B" using \<open>B = q * d + d\<close> \<open>0 < d\<close> by simp
    ultimately show ?thesis by (simp add: q_def)
  next
    case False
    then have "q + 2 \<le> k" using qk by simp
    then have "(q + 2) * d \<le> k * d" using \<open>0 < d\<close> by (simp add: mult_right_mono del: distrib_right_numeral)
    then have "q * d + d + d \<le> B" using B by (simp add: algebra_simps)
    then have "(q + 1) * d < B" "q * d < B" using \<open>0 < d\<close> by (simp_all add: algebra_simps)
    then show ?thesis by (simp add: q_def)
  qed
qed

lemma bit_length_bounds:
  "0 < n \<Longrightarrow> 2 ^ (bit_length n - 1) \<le> n \<and> n < 2 ^ bit_length n"
proof (induction n rule: bit_length.induct)
  case (1 n)
  show ?case
  proof (cases "n div 2 = 0")
    case True
    with "1.prems" have "n = 1" by (simp add: div_eq_0_iff) 
    then show ?thesis by (simp add: bit_length.simps)
  next
    case False
    then have pos: "0 < n div 2" by simp
    with "1.IH" "1.prems" have ih: "2 ^ (bit_length (n div 2) - 1) \<le> n div 2" "n div 2 < 2 ^ bit_length (n div 2)"
      by simp_all
    have bl: "bit_length n = Suc (bit_length (n div 2))" using "1.prems" by (subst bit_length.simps) simp
    have "0 < bit_length (n div 2)" using pos by (subst bit_length.simps) simp
    then obtain k where k: "bit_length (n div 2) = Suc k" by (cases "bit_length (n div 2)") auto
    show ?thesis using ih unfolding bl k by (simp; linarith)
  qed
qed

lemma bit_length_le:
  assumes "n < 2 ^ k" shows "bit_length n \<le> k"
proof (cases "n = 0")
  case True then show ?thesis by (simp add: bit_length.simps)
next
  case False
  then have "2 ^ (bit_length n - 1) \<le> n" using bit_length_bounds by simp
  from this assms have "(2::nat) ^ (bit_length n - 1) < 2 ^ k" by (rule le_less_trans)
  then have "bit_length n - 1 < k" by (simp only: power_strict_increasing_iff semiring_norm)
  then show ?thesis by simp
qed

lemma font_size_small:
  assumes "0 \<le> n" "n \<le> 2 ^ 52"
  shows "font_size n = Inr (3 * n div 5)"
proof -
  define F where "F = 3 * n div 5"
  have F: "5 * F \<le> 3 * n" "3 * n \<le> 5 * F + 4" "0 \<le> F"
    using assms(1) unfolding F_def by simp_all
  have "nat \<bar>n\<bar> < 2 ^ 53" using assms by (simp add: nat_less_iff)
  then have "bit_length (nat \<bar>n\<bar>) \<le> 53" by (rule bit_length_le)
  then have r1: "round_to_53_bits n = n" by (simp add: round_to_53_bits_def)
  have "\<bar>n\<bar> < 2 ^ 1024" using assms by simp
  then have f1: "float_of_int n = Inr n" by (simp add: float_of_int_def r1)
  define p where "p = n * 5404319552844595"
  have p0: "0 \<le> p" using assms(1) by (simp add: p_def)
  define l where "l = bit_length (nat \<bar>p\<bar>)"
  have "int_of_float (round_to_53_bits p) = F"
  proof (cases "l \<le> 53")
    case True
    then have r: "round_to_53_bits p = p" by (simp add: round_to_53_bits_def l_def)
    have "p < 2 ^ 53"
    proof (cases "p = 0")
      case False
      then have "0 < nat \<bar>p\<bar>" by simp
      then have "nat \<bar>p\<bar> < 2 ^ l" unfolding l_def using bit_length_bounds by blast
      also have "(2::nat) ^ l \<le> 2 ^ 53" using True by (simp only: power_increasing_iff semiring_norm)
      finally show ?thesis using p0 by (simp add: nat_less_iff)
    qed simp
    then have "n < 2" unfolding p_def by simp
    then have "F = 0" using F by simp
    moreover have "p div 2 ^ 53 = 0" using \<open>p < 2 ^ 53\<close> p0 by simp
    ultimately show ?thesis using p0 by (simp add: int_of_float_def r)
  next
    case False
    then have l: "53 < l" by simp
    define d :: int where "d = 2 ^ (l - 53)"
    have d0: "0 < d" by (simp add: d_def)
    have ppos: "0 < nat \<bar>p\<bar>" using l unfolding l_def by (subst (asm) bit_length.simps) (simp split: if_splits)
    then have bnd: "2 ^ (l - 1) \<le> nat \<bar>p\<bar>" "nat \<bar>p\<bar> < 2 ^ l"
      unfolding l_def using bit_length_bounds by blast+
    have "l - 1 = (l - 53) + 52" "l = (l - 53) + 53" using l by simp_all
    then have "(2::int) ^ (l - 1) = 2 ^ ((l - 53) + 52)" "(2::int) ^ l = 2 ^ ((l - 53) + 53)"
      by simp_all
    then have e1: "(2::int) ^ (l - 1) = d * 2 ^ 52" and e2: "(2::int) ^ l = d * 2 ^ 53"
      unfolding d_def by (simp_all only: power_add)
    have "int (2 ^ (l - 1)) \<le> int (nat \<bar>p\<bar>)" using bnd(1) by (rule iffD2[OF of_nat_le_iff])
    then have lo: "d * 2 ^ 52 \<le> p" using p0 e1 by simp
    have "int (nat \<bar>p\<bar>) < int (2 ^ l)" using bnd(2) by (rule iffD2[OF of_nat_less_iff])
    then have hi: "p < d * 2 ^ 53" using p0 e2 by simp
    have "d < 2 ^ 53" using lo assms(2) unfolding p_def by simp
    then have "(2::int) ^ (l - 53) < 2 ^ 53" by (simp add: d_def)
    then have "l - 53 < 53" by (simp only: power_strict_increasing_iff semiring_norm)
    then have dv: "d dvd 2 ^ 53" unfolding d_def by (intro le_imp_power_dvd) simp
    define R where "R = (if d < 2 * (p mod d) \<or> (2 * (p mod d) = d \<and> odd (p div d)) then p div d + 1 else p div d) * d"
    have "2 * (F * 2 ^ 53 - p) < d" using F lo hi assms unfolding p_def by simp
    then have L: "F * 2 ^ 53 \<le> R" unfolding R_def using d0 dv by (intro round_lower) simp_all
    have "d < 2 * ((F + 1) * 2 ^ 53 - p)" using F lo hi assms unfolding p_def by simp
    then have U: "R < (F + 1) * 2 ^ 53" unfolding R_def using d0 dv by (intro round_upper) simp_all
    have l': "bit_length (nat p) = l" using p0 by (simp add: l_def)
    have r: "round_to_53_bits p = sgn p * R"
      using l p0 by (simp add: round_to_53_bits_def l' Let_def R_def d_def)
    have "0 < p" using ppos p0 by simp
    then have r': "round_to_53_bits p = R" using r by simp
    have "0 \<le> R" using L F by (simp add: order_trans[OF _ L])
    have "R div 2 ^ 53 = F" using L U by (intro int_div_pos_eq[where r = "R - F * 2 ^ 53"]) simp_all
    then show ?thesis using \<open>0 \<le> R\<close> F unfolding int_of_float_def r'
      by (cases "R = 0") (simp_all add: sgn_if)
  qed
  then show ?thesis
    by (simp add: font_size_def f1 times_0_6_def p_def F_def)
qed

section \<open>What a run of \<open>create_icon\<close> can be\<close>

lemma calls_log_call [simp]: "calls (log_call c out w) = calls w @ [(c, out)]"
  by (simp add: log_call_def)

lemma files_log_call [simp]: "files (log_call c out w) = files w"
  by (simp add: log_call_def)

lemma stdout_log_call [simp]: "stdout (log_call c out w) = stdout w"
  by (simp add: log_call_def)

lemma dirs_log_call [simp]: "dirs (log_call c out w) = dirs w"
  by (simp add: log_call_def)

lemma new_calls_append [simp]: "calls w' = calls w @ tr \<Longrightarrow> new_calls w w' = tr"
  by (simp add: new_calls_def)

lemma io_bindE:
  assumes "io_bind m f w = (r, w'')"
  obtains (raised) e where "m w = (Inl e, w'')" "r = Inl e"
        | (went_on) a w' where "m w = (Inr a, w')" "f a w' = (r, w'')"
  using assms by (auto simp: io_bind_def split: prod.splits sum.splits)

lemma lib_callE:
  assumes "lib_call c failure result effect w = (r, w')"
  obtains (raised) e where "failure = Some e" "r = Inl e" "w' = log_call c (Raised e) w"
        | (returned) "failure = None" "r = Inr result" "w' = effect (log_call c Returned w)"
  using assms by (auto simp: lib_call_def split: option.splits)

lemma try_load_defaultE:
  assumes "try_load_default env w = (r, w')"
  obtains (no_font) e where "load_default_fails env w = Some e" "r = Inr None"
                            "w' = log_call (Call_load_default None) (Raised e) w"
        | (font) "load_default_fails env w = None" "r = Inr (Some (default_font env))"
                 "w' = log_call (Call_load_default None) Returned w"
  using assms by (auto simp: try_load_default_def load_default_def lib_call_def split: option.splits)

lemma measure_textE:
  assumes "measure_text env img s f fs w = (r, w')"
  obtains (estimate) "f = None" "r = Inr (fs div 2, fs)" "w' = w"
        | (raised) fnt e where "f = Some fnt" "textbbox_fails env w img f = Some e" "r = Inl e"
                     "w' = log_call (Call_textbbox (0, 0) s f) (Raised e) w"
        | (measured) fnt l t r' b where "f = Some fnt" "textbbox_fails env w img f = None"
                     "text_bbox env (0, 0) s f = (l, t, r', b)" "r = Inr (r' - l, b - t)"
                     "w' = log_call (Call_textbbox (0, 0) s f) Returned w"
  using assms
  by (cases f; cases "text_bbox env (0, 0) s f")
     (auto simp: measure_text_def io_return_def io_bind_def textbbox_def lib_call_def split: option.splits)

text \<open>Lines 39 to 44: drawing, making the directory, saving, printing.\<close>

lemma finishE:
  assumes "io_bind (draw_text env img xy ''S'' white f) (\<lambda>img'.
           io_bind (makedirs env icons_dir True) (\<lambda>_.
           io_bind (save env img' (icon_path fn)) (\<lambda>_.
           print env (created_line fn sz)))) w = (r, w')"
  obtains
    (text_raised) e where "r = Inl e" "files w' = files w" "stdout w' = stdout w"
      "calls w' = calls w @ [(Call_text xy ''S'' white f, Raised e)]"
  | (makedirs_raised) e where "r = Inl e" "files w' = files w" "stdout w' = stdout w"
      "calls w' = calls w @ [(Call_text xy ''S'' white f, Returned),
          (Call_makedirs icons_dir True, Raised e)]"
  | (save_raised) e where "r = Inl e" "files w' = files w" "stdout w' = stdout w"
      "calls w' = calls w @ [(Call_text xy ''S'' white f, Returned),
          (Call_makedirs icons_dir True, Returned),
          (Call_save (icon_path fn), Raised e)]"
  | (print_raised) e where "r = Inl e" "stdout w' = stdout w"
      "files w' = (files w)(icon_path fn \<mapsto>
         img\<lparr>pixels := paint (text_cover env img xy ''S'' white f) (pixels img)\<rparr>)"
      "calls w' = calls w @ [(Call_text xy ''S'' white f, Returned),
          (Call_makedirs icons_dir True, Returned),
          (Call_save (icon_path fn), Returned),
          (Call_print (created_line fn sz), Raised e)]"
  | (created) "r = Inr ()" "stdout w' = stdout w @ [created_line fn sz]"
      "files w' = (files w)(icon_path fn \<mapsto>
         img\<lparr>pixels := paint (text_cover env img xy ''S'' white f) (pixels img)\<rparr>)"
      "calls w' = calls w @ [(Call_text xy ''S'' white f, Returned),
          (Call_makedirs icons_dir True, Returned),
          (Call_save (icon_path fn), Returned),
          (Call_print (created_line fn sz), Returned)]"
  using assms
  by (auto simp: draw_text_def makedirs_def save_def print_def
      elim!: io_bindE lib_callE)

text \<open>
  Every run of \<open>create_icon\<close> is one of nine: one of the eight calls that can end it
  raised, or the conversion of the size to a double did, or the icon was created.
\<close>

lemma create_iconE:
  fixes env sz fn w
  defines "c_new \<equiv> Call_Image_new ''RGB'' (sz, sz) hex_4285f4"
  defines "img0 \<equiv> blank ''RGB'' (sz, sz) hex_4285f4"
  assumes run: "create_icon env sz fn w = (r, w')"
  obtains
    (new_raised) e where "r = Inl e" "files w' = files w" "stdout w' = stdout w"
      "calls w' = calls w @ [(c_new, Raised e)]"
  | (Draw_raised) e where "r = Inl e" "files w' = files w" "stdout w' = stdout w"
      "calls w' = calls w @ [(c_new, Returned), (Call_Draw, Raised e)]"
  | (overflow) e where "r = Inl e" "files w' = files w" "stdout w' = stdout w"
      "font_size sz = Inl e"
      "calls w' = calls w @ [(c_new, Returned), (Call_Draw, Returned)]"
  | (textbbox_raised) e fs where "r = Inl e" "files w' = files w" "stdout w' = stdout w"
      "font_size sz = Inr fs"
      "calls w' = calls w @ [(c_new, Returned), (Call_Draw, Returned),
         (Call_load_default None, Returned),
         (Call_textbbox (0, 0) ''S'' (Some (default_font env)), Raised e)]"
  | (text_raised) e fs f tr where "r = Inl e" "files w' = files w" "stdout w' = stdout w"
      "font_size sz = Inr fs" "font_step env f tr"
      "calls w' = calls w @ [(c_new, Returned), (Call_Draw, Returned)] @ tr @
         [(Call_text ((sz - fst (glyph_extent env fs f)) div 2,
            (sz - snd (glyph_extent env fs f)) div 2) ''S'' white f, Raised e)]"
  | (makedirs_raised) e fs f tr where "r = Inl e" "files w' = files w" "stdout w' = stdout w"
      "font_size sz = Inr fs" "font_step env f tr"
      "calls w' = calls w @ [(c_new, Returned), (Call_Draw, Returned)] @ tr @
         [(Call_text ((sz - fst (glyph_extent env fs f)) div 2,
            (sz - snd (glyph_extent env fs f)) div 2) ''S'' white f, Returned),
          (Call_makedirs icons_dir True, Raised e)]"
  | (save_raised) e fs f tr where "r = Inl e" "files w' = files w" "stdout w' = stdout w"
      "font_size sz = Inr fs" "font_step env f tr"
      "calls w' = calls w @ [(c_new, Returned), (Call_Draw, Returned)] @ tr @
         [(Call_text ((sz - fst (glyph_extent env fs f)) div 2,
            (sz - snd (glyph_extent env fs f)) div 2) ''S'' white f, Returned),
          (Call_makedirs icons_dir True, Returned),
          (Call_save (icon_path fn), Raised e)]"
  | (print_raised) e fs f tr where "r = Inl e" "stdout w' = stdout w"
      "font_size sz = Inr fs" "font_step env f tr"
      "files w' = (files w)(icon_path fn \<mapsto>
         img0\<lparr>pixels := paint (text_cover env img0 ((sz - fst (glyph_extent env fs f)) div 2,
            (sz - snd (glyph_extent env fs f)) div 2) ''S'' white f)
                            (pixels img0)\<rparr>)"
      "calls w' = calls w @ [(c_new, Returned), (Call_Draw, Returned)] @ tr @
         [(Call_text ((sz - fst (glyph_extent env fs f)) div 2,
            (sz - snd (glyph_extent env fs f)) div 2) ''S'' white f, Returned),
          (Call_makedirs icons_dir True, Returned),
          (Call_save (icon_path fn), Returned),
          (Call_print (created_line fn sz), Raised e)]"
  | (created) fs f tr where "r = Inr ()" "stdout w' = stdout w @ [created_line fn sz]"
      "font_size sz = Inr fs" "font_step env f tr"
      "files w' = (files w)(icon_path fn \<mapsto>
         img0\<lparr>pixels := paint (text_cover env img0 ((sz - fst (glyph_extent env fs f)) div 2,
            (sz - snd (glyph_extent env fs f)) div 2) ''S'' white f)
                            (pixels img0)\<rparr>)"
      "calls w' = calls w @ [(c_new, Returned), (Call_Draw, Returned)] @ tr @
         [(Call_text ((sz - fst (glyph_extent env fs f)) div 2,
            (sz - snd (glyph_extent env fs f)) div 2) ''S'' white f, Returned),
          (Call_makedirs icons_dir True, Returned),
          (Call_save (icon_path fn), Returned),
          (Call_print (created_line fn sz), Returned)]"
proof -
  note [simp] = c_new_def img0_def Image_new_def ImageDraw_Draw_def io_raise_def io_return_def
  from run[unfolded create_icon_def] show thesis
  proof (cases rule: io_bindE)
    case (raised e)
    then show thesis by (auto elim!: lib_callE intro: new_raised)
  next
    case (went_on img w1)
    then have w1: "img = img0" "w1 = log_call c_new Returned w"
      by (auto elim!: lib_callE)
    from went_on(2) show thesis
    proof (cases rule: io_bindE)
      case (raised e)
      then show thesis using w1 by (auto elim!: lib_callE intro: Draw_raised)
    next
      case (went_on u w2)
      then have w2: "w2 = log_call Call_Draw Returned w1" by (auto elim!: lib_callE)
      from went_on(2) show thesis
      proof (cases rule: io_bindE)
        case (raised e)
        then show thesis using w1 w2 by (auto split: sum.splits intro: overflow)
      next
        case (went_on fs w3)
        then have w3: "w3 = w2" "font_size sz = Inr fs" by (auto split: sum.splits)
        from went_on(2) show thesis
        proof (cases rule: io_bindE)
          case (raised e)
          then show thesis by (auto elim!: try_load_defaultE)
        next
          case (went_on f w4)
          note load = went_on(1)
          from went_on(2) show thesis
          proof (cases rule: io_bindE)
            case (raised e)
            then show thesis using load w1 w2 w3
              by (auto elim!: try_load_defaultE measure_textE intro: textbbox_raised)
          next
            case (went_on ext w5)
            obtain tw th where ext: "ext = (tw, th)" by (cases ext)
            from load went_on(1) obtain tr where
              tr: "font_step env f tr" "(tw, th) = glyph_extent env fs f" "calls w5 = calls w2 @ tr"
                  "files w5 = files w2" "stdout w5 = stdout w2"
              using w3(1) unfolding ext font_step_def glyph_extent_def
              by (elim try_load_defaultE measure_textE) auto
            from went_on(2)[unfolded ext] tr(2)[symmetric] have
              "io_bind (draw_text env img0 ((sz - fst (glyph_extent env fs f)) div 2,
            (sz - snd (glyph_extent env fs f)) div 2) ''S'' white f) (\<lambda>img'.
               io_bind (makedirs env icons_dir True) (\<lambda>_.
               io_bind (save env img' (icon_path fn)) (\<lambda>_.
               print env (created_line fn sz)))) w5 = (r, w')"
              using w1 by simp
            then show thesis
              using tr w1 w2 w3
              by (cases rule: finishE)
                 (auto intro: text_raised makedirs_raised save_raised print_raised created)
          qed
        qed
      qed
    qed
  qed
qed

text \<open>Three fifths of an integer, rounded down, is \<open>floor (0.6 * n)\<close>.\<close>

lemma three_fifths: "\<lfloor>0.6 * real_of_int n\<rfloor> = 3 * n div 5"
proof -
  have "0.6 * real_of_int n = real_of_int (3 * n) / real_of_int 5" by simp
  then show ?thesis by (simp only: floor_divide_of_int_eq)
qed

section \<open>Bitmaps\<close>

lemma paint_outside: "p \<notin> fst ` set cover \<Longrightarrow> paint cover px p = px p"
  unfolding paint_def by (induction cover arbitrary: px) (auto split: if_splits)

lemma dom_paint: "dom (paint cover px) = dom px"
  unfolding paint_def by (induction cover arbitrary: px) (auto split: if_splits)

lemma blank_simps [simp]:
  "mode (blank m sz c) = m" "width (blank m sz c) = fst sz" "height (blank m sz c) = snd sz"
  "pixels (blank m sz c) (x, y) = (if 0 \<le> x \<and> x < fst sz \<and> 0 \<le> y \<and> y < snd sz then Some c else None)"
  by (simp_all add: blank_def)

lemma dom_blank: "dom (pixels (blank m sz c)) = {(x, y). 0 \<le> x \<and> x < fst sz \<and> 0 \<le> y \<and> y < snd sz}"
  by (auto simp: blank_def split: if_splits)

section \<open>Sequences of statements\<close>

lemma io_bind_assoc: "io_bind (io_bind m f) g = io_bind m (\<lambda>a. io_bind (f a) g)"
  by (rule ext) (simp add: io_bind_def split: prod.splits sum.splits)

lemma io_bind_return [simp]: "io_bind (io_return a) f = f a"
  by (rule ext) (simp add: io_bind_def io_return_def)

lemma io_bind_return_unit [simp]: "io_bind m (\<lambda>_. io_return ()) = (m :: unit io)"
  by (rule ext) (simp add: io_bind_def io_return_def split: prod.splits sum.splits)

lemma try_body_icons:
  "try_body env =
     io_bind (import_PIL env) (\<lambda>_.
     io_bind (create_icons env icons) (\<lambda>_. print_all env success_banner))"
  by (simp add: try_body_def icons_def io_bind_assoc)

lemma allocated_append [simp]: "allocated (tr @ tr') = allocated tr @ allocated tr'"
  by (induction tr rule: allocated.induct) simp_all

lemma saved_append [simp]: "saved (tr @ tr') = saved tr @ saved tr'"
  by (induction tr rule: saved.induct) simp_all

lemma new_calls_trans:
  assumes "calls w' = calls w @ tr" "calls w'' = calls w' @ tr'"
  shows "new_calls w w'' = new_calls w w' @ new_calls w' w''"
  using assms by (simp add: new_calls_def)

lemma print_all_cases:
  assumes "print_all env ss w = (r, w')"
  shows "files w' = files w \<and>
         ((r = Inr () \<and> stdout w' = stdout w @ ss \<and>
           calls w' = calls w @ map (\<lambda>s. (Call_print s, Returned)) ss) \<or>
          (\<exists>e n. n < length ss \<and> r = Inl e \<and> stdout w' = stdout w @ take n ss \<and>
             calls w' = calls w @ map (\<lambda>s. (Call_print s, Returned)) (take n ss) @
                        [(Call_print (ss ! n), Raised e)]))"
  using assms
proof (induction ss arbitrary: w)
  case Nil
  then show ?case by (simp add: io_return_def)
next
  case (Cons s ss)
  from Cons.prems have "io_bind (print env s) (\<lambda>_. print_all env ss) w = (r, w')" by simp
  then show ?case
  proof (cases rule: io_bindE)
    case (raised e)
    then have "r = Inl e" "stdout w' = stdout w" "files w' = files w"
      "calls w' = calls w @ [(Call_print s, Raised e)]"
      by (auto simp: print_def elim!: lib_callE)
    then show ?thesis by (intro conjI disjI2 exI[of _ e] exI[of _ 0]) simp_all
  next
    case (went_on u w1)
    then have w1: "stdout w1 = stdout w @ [s]" "files w1 = files w"
      "calls w1 = calls w @ [(Call_print s, Returned)]"
      by (auto simp: print_def elim!: lib_callE)
    from Cons.IH[OF went_on(2)] show ?thesis
    proof (elim conjE disjE exE)
      assume "files w' = files w1" "r = Inr ()" "stdout w' = stdout w1 @ ss"
        "calls w' = calls w1 @ map (\<lambda>s. (Call_print s, Returned)) ss"
      then show ?thesis using w1 by simp
    next
      fix e n
      assume "files w' = files w1" "n < length ss" "r = Inl e" "stdout w' = stdout w1 @ take n ss"
        "calls w' = calls w1 @ map (\<lambda>s. (Call_print s, Returned)) (take n ss) @
                        [(Call_print (ss ! n), Raised e)]"
      then show ?thesis using w1
        by (intro conjI disjI2 exI[of _ e] exI[of _ "Suc n"]) simp_all
    qed
  qed
qed

lemma print_allE:
  assumes "print_all env ss w = (r, w')"
  obtains (printed) "r = Inr ()" "stdout w' = stdout w @ ss" "files w' = files w"
            "calls w' = calls w @ map (\<lambda>s. (Call_print s, Returned)) ss"
        | (raised) e n where "n < length ss" "r = Inl e" "stdout w' = stdout w @ take n ss"
            "files w' = files w"
            "calls w' = calls w @ map (\<lambda>s. (Call_print s, Returned)) (take n ss) @
                        [(Call_print (ss ! n), Raised e)]"
  using print_all_cases[OF assms] by blast


lemma create_icon_created:
  assumes "create_icon env sz fn w = (Inr u, w')"
  shows "\<exists>tr img. calls w' = calls w @ tr \<and> allocated tr = [(sz, sz)] \<and>
           saved tr = [icon_path fn] \<and> stdout w' = stdout w @ [created_line fn sz] \<and>
           files w' = (files w)(icon_path fn \<mapsto> img) \<and>
           mode img = ''RGB'' \<and> width img = sz \<and> height img = sz"
  using assms by (cases rule: create_iconE) (auto simp: font_step_def blank_def)

lemma create_icon_raised:
  assumes "create_icon env sz fn w = (Inl e, w')"
  shows "\<exists>tr. calls w' = calls w @ tr \<and> allocated tr = [(sz, sz)] \<and> stdout w' = stdout w \<and>
           ((saved tr = [] \<and> files w' = files w \<and>
             (\<forall>s. (Call_print s, Raised e) \<notin> set tr)) \<or>
            (saved tr = [icon_path fn] \<and> (\<exists>img. files w' = (files w)(icon_path fn \<mapsto> img)) \<and>
             (Call_print (created_line fn sz), Raised e) \<in> set tr))"
  using assms by (cases rule: create_iconE) (auto simp: font_step_def)

lemma create_icons_created:
  assumes "create_icons env jobs w = (Inr u, w')"
  shows "\<exists>tr. calls w' = calls w @ tr \<and>
           allocated tr = map (\<lambda>(sz, fn). (sz, sz)) jobs \<and>
           saved tr = map (\<lambda>(sz, fn). icon_path fn) jobs \<and>
           stdout w' = stdout w @ map (\<lambda>(sz, fn). created_line fn sz) jobs \<and>
           (\<forall>p. p \<notin> (\<lambda>(sz, fn). icon_path fn) ` set jobs \<longrightarrow> files w' p = files w p) \<and>
           (\<forall>p. files w p \<noteq> None \<longrightarrow> files w' p \<noteq> None) \<and>
           (distinct (map snd jobs) \<longrightarrow>
              (\<forall>(sz, fn) \<in> set jobs. \<exists>img. files w' (icon_path fn) = Some img \<and>
                  mode img = ''RGB'' \<and> width img = sz \<and> height img = sz))"
  using assms
proof (induction jobs arbitrary: w)
  case Nil
  then show ?case by (simp add: io_return_def)
next
  case (Cons job jobs)
  obtain sz fn where job: "job = (sz, fn)" by (cases job)
  from Cons.prems have "io_bind (create_icon env sz fn) (\<lambda>_. create_icons env jobs) w = (Inr u, w')"
    by (simp add: job)
  then obtain v w1 where first: "create_icon env sz fn w = (Inr v, w1)"
    and rest: "create_icons env jobs w1 = (Inr u, w')"
    by (cases rule: io_bindE) auto
  from create_icon_created[OF first] obtain tr1 img where 1:
    "calls w1 = calls w @ tr1" "allocated tr1 = [(sz, sz)]" "saved tr1 = [icon_path fn]"
    "stdout w1 = stdout w @ [created_line fn sz]" "files w1 = (files w)(icon_path fn \<mapsto> img)"
    "mode img = ''RGB''" "width img = sz" "height img = sz"
    by blast
  from Cons.IH[OF rest] obtain tr2 where 2:
    "calls w' = calls w1 @ tr2"
    "allocated tr2 = map (\<lambda>(sz, fn). (sz, sz)) jobs"
    "saved tr2 = map (\<lambda>(sz, fn). icon_path fn) jobs"
    "stdout w' = stdout w1 @ map (\<lambda>(sz, fn). created_line fn sz) jobs"
    "\<forall>p. p \<notin> (\<lambda>(sz, fn). icon_path fn) ` set jobs \<longrightarrow> files w' p = files w1 p"
    "\<forall>p. files w1 p \<noteq> None \<longrightarrow> files w' p \<noteq> None"
    "distinct (map snd jobs) \<longrightarrow>
       (\<forall>(sz, fn) \<in> set jobs. \<exists>img. files w' (icon_path fn) = Some img \<and>
           mode img = ''RGB'' \<and> width img = sz \<and> height img = sz)"
    by blast
  have inj: "\<And>a b. icon_path a = icon_path b \<longleftrightarrow> a = b" by (simp add: icon_path_def)
  have "calls w' = calls w @ (tr1 @ tr2)" using 1 2 by simp
  moreover have "allocated (tr1 @ tr2) = map (\<lambda>(sz, fn). (sz, sz)) (job # jobs)"
    using 1 2 by (simp add: job)
  moreover have "saved (tr1 @ tr2) = map (\<lambda>(sz, fn). icon_path fn) (job # jobs)"
    using 1 2 by (simp add: job)
  moreover have "stdout w' = stdout w @ map (\<lambda>(sz, fn). created_line fn sz) (job # jobs)"
    using 1 2 by (simp add: job)
  moreover have "\<forall>p. p \<notin> (\<lambda>(sz, fn). icon_path fn) ` set (job # jobs) \<longrightarrow> files w' p = files w p"
    using 1(5) 2(5) by (auto simp: job)
  moreover have "\<forall>p. files w p \<noteq> None \<longrightarrow> files w' p \<noteq> None"
    using 1(5) 2(6) by auto
  moreover have "distinct (map snd (job # jobs)) \<longrightarrow>
       (\<forall>(sz, fn) \<in> set (job # jobs). \<exists>img. files w' (icon_path fn) = Some img \<and>
           mode img = ''RGB'' \<and> width img = sz \<and> height img = sz)"
  proof
    assume d: "distinct (map snd (job # jobs))"
    then have "icon_path fn \<notin> (\<lambda>(sz, fn). icon_path fn) ` set jobs"
      by (force simp: job inj)
    then have "files w' (icon_path fn) = Some img" using 1(5) 2(5) by simp
    then show "\<forall>(sz, fn) \<in> set (job # jobs). \<exists>img. files w' (icon_path fn) = Some img \<and>
           mode img = ''RGB'' \<and> width img = sz \<and> height img = sz"
      using 1(6,7,8) 2(7) d by (auto simp: job)
  qed
  ultimately show ?case by blast
qed

lemma create_icons_stops_at:
  assumes "k < length jobs"
    and "create_icons env (take k jobs) w = (Inr u, w2)"
    and "create_icon env (fst (jobs ! k)) (snd (jobs ! k)) w2 = (Inl e, w3)"
  shows "create_icons env jobs w = (Inl e, w3)"
  using assms
proof (induction jobs arbitrary: k w)
  case Nil
  then show ?case by simp
next
  case (Cons job jobs)
  obtain sz fn where job: "job = (sz, fn)" by (cases job)
  show ?case
  proof (cases k)
    case 0
    with Cons.prems show ?thesis by (simp add: job io_return_def io_bind_def)
  next
    case (Suc j)
    with Cons.prems(2) have "io_bind (create_icon env sz fn) (\<lambda>_. create_icons env (take j jobs)) w = (Inr u, w2)"
      by (simp add: job)
    then obtain v w1 where first: "create_icon env sz fn w = (Inr v, w1)"
      and rest: "create_icons env (take j jobs) w1 = (Inr u, w2)"
      by (cases rule: io_bindE) auto
    from Cons.prems(1,3) Suc have "j < length jobs"
      "create_icon env (fst (jobs ! j)) (snd (jobs ! j)) w2 = (Inl e, w3)" by simp_all
    from Cons.IH[OF this(1) rest this(2)] show ?thesis
      using first by (simp add: job io_bind_def)
  qed
qed

section \<open>What a run of the script can be\<close>

lemma font_size_icons:
  assumes "(sz, fn) \<in> set icons"
  shows "font_size sz = Inr (3 * sz div 5)"
  using assms by (auto simp: icons_def font_size_small)

lemma import_PIL_cases:
  assumes "import_PIL env w = (r, w1)"
  shows "files w1 = files w \<and> stdout w1 = stdout w \<and>
         ((r = Inr () \<and> import_fails env w = None \<and>
           calls w1 = calls w @ [(Call_import_PIL, Returned)]) \<or>
          (\<exists>e. r = Inl e \<and> import_fails env w = Some e \<and>
             calls w1 = calls w @ [(Call_import_PIL, Raised e)]))"
  using assms by (auto simp: import_PIL_def lib_call_def split: option.splits)

lemma allocated_prints [simp]: "allocated (map (\<lambda>s. (Call_print s, out)) ss) = []"
  by (induction ss) simp_all

lemma saved_prints [simp]: "saved (map (\<lambda>s. (Call_print s, out)) ss) = []"
  by (cases out; induction ss; simp)

lemma print_all_trace:
  assumes "print_all env ss w = (r, w')"
  shows "\<exists>tr. calls w' = calls w @ tr \<and> allocated tr = [] \<and> saved tr = [] \<and>
           files w' = files w \<and>
           (\<forall>c out. (c, out) \<in> set tr \<longrightarrow> (\<exists>s. c = Call_print s)) \<and>
           (\<forall>e. r = Inl e \<longrightarrow> (\<exists>s. (Call_print s, Raised e) \<in> set tr)) \<and>
           ((\<forall>s e. (Call_print s, Raised e) \<notin> set tr) \<longrightarrow>
              r = Inr () \<and> stdout w' = stdout w @ ss)"
  using assms by (cases rule: print_allE) auto

lemma create_icon_raised_call:
  assumes "create_icon env sz fn w = (Inl e, w')" "font_size sz = Inr fs"
  shows "\<exists>tr c. calls w' = calls w @ tr \<and> (c, Raised e) \<in> set tr \<and> (\<forall>a. c \<noteq> Call_load_default a)"
  using assms by (cases rule: create_iconE) (auto simp: font_step_def)

lemma create_icons_raised:
  assumes "create_icons env jobs w = (Inl e, w')"
    and "\<forall>(sz, fn) \<in> set jobs. \<exists>fs. font_size sz = Inr fs"
  shows "\<exists>tr c. calls w' = calls w @ tr \<and> (c, Raised e) \<in> set tr \<and> (\<forall>a. c \<noteq> Call_load_default a)"
  using assms
proof (induction jobs arbitrary: w)
  case Nil
  then show ?case by (simp add: io_return_def)
next
  case (Cons job jobs)
  obtain sz fn where job: "job = (sz, fn)" by (cases job)
  from Cons.prems(2) obtain fs where fs: "font_size sz = Inr fs" by (auto simp: job)
  from Cons.prems(1) have "io_bind (create_icon env sz fn) (\<lambda>_. create_icons env jobs) w = (Inl e, w')"
    by (simp add: job)
  then show ?case
  proof (cases rule: io_bindE)
    case (raised e')
    then have "create_icon env sz fn w = (Inl e, w')" by simp
    from create_icon_raised_call[OF this fs] show ?thesis .
  next
    case (went_on v w1)
    from create_icon_created[OF went_on(1)] obtain tr1 where 1: "calls w1 = calls w @ tr1" by blast
    from Cons.IH[OF went_on(2)] Cons.prems(2) obtain tr2 c where
      2: "calls w' = calls w1 @ tr2" "(c, Raised e) \<in> set tr2" "\<forall>a. c \<noteq> Call_load_default a"
      by auto
    from 1 2 have "calls w' = calls w @ (tr1 @ tr2)" "(c, Raised e) \<in> set (tr1 @ tr2)" by simp_all
    with 2(3) show ?thesis by blast
  qed
qed

lemma try_body_stops:
  assumes "import_PIL env w = (Inr u, w1)"
    and "k < length icons"
    and "create_icons env (take k icons) w1 = (Inr v, w2)"
    and "create_icon env (fst (icons ! k)) (snd (icons ! k)) w2 = (Inl e, w3)"
  shows "try_body env w = (Inl e, w3)"
  using create_icons_stops_at[OF assms(2,3,4)] assms(1)
  by (simp add: try_body_icons io_bind_def)

lemma icons_distinct: "distinct (map snd icons)"
  by (simp add: icons_def)

text \<open>The script after an exception in the body: the handler only prints.\<close>

lemma script_handler:
  assumes "try_body env w = (Inl e, w3)" and "script env w = (r, w')"
  shows "\<exists>tr. calls w' = calls w3 @ tr \<and> allocated tr = [] \<and> saved tr = [] \<and>
           files w' = files w3 \<and> (\<forall>c out. (c, out) \<in> set tr \<longrightarrow> (\<exists>s. c = Call_print s))"
proof (cases "exn_class e")
  case ImportError
  with assms have "print_all env import_error_lines w3 = (r, w')" by (simp add: script_def)
  from print_all_trace[OF this] show ?thesis by blast
next
  case OtherException
  with assms have "print_all env (error_lines e) w3 = (r, w')" by (simp add: script_def)
  from print_all_trace[OF this] show ?thesis by blast
next
  case NonException
  with assms have "w' = w3" by (simp add: script_def)
  then show ?thesis by simp
qed

lemma try_body_cases:
  assumes "try_body env w = (r, w3)"
  shows "\<exists>tr. calls w3 = calls w @ tr \<and>
           ((\<exists>e c. r = Inl e \<and> (c, Raised e) \<in> set tr \<and> (\<forall>a. c \<noteq> Call_load_default a)) \<or>
            (r = Inr () \<and>
             allocated tr = map (\<lambda>(sz, fn). (sz, sz)) icons \<and>
             saved tr = map (\<lambda>(sz, fn). icon_path fn) icons \<and>
             stdout w3 = stdout w @ map (\<lambda>(sz, fn). created_line fn sz) icons @ success_banner \<and>
             (\<forall>p. p \<notin> (\<lambda>(sz, fn). icon_path fn) ` set icons \<longrightarrow> files w3 p = files w p) \<and>
             (\<forall>(sz, fn) \<in> set icons. \<exists>img. files w3 (icon_path fn) = Some img \<and>
                  mode img = ''RGB'' \<and> width img = sz \<and> height img = sz)))"
proof -
  from assms have "io_bind (import_PIL env) (\<lambda>_.
     io_bind (create_icons env icons) (\<lambda>_. print_all env success_banner)) w = (r, w3)"
    by (simp add: try_body_icons)
  then show ?thesis
  proof (cases rule: io_bindE)
    case (raised e)
    from import_PIL_cases[OF raised(1)] raised(2) show ?thesis by auto
  next
    case (went_on u w1)
    from import_PIL_cases[OF went_on(1)] have 1: "files w1 = files w" "stdout w1 = stdout w"
      "calls w1 = calls w @ [(Call_import_PIL, Returned)]" by auto
    from went_on(2) show ?thesis
    proof (cases rule: io_bindE)
      case (raised e)
      then have "create_icons env icons w1 = (Inl e, w3)" by simp
      moreover have "\<forall>(sz, fn) \<in> set icons. \<exists>fs. font_size sz = Inr fs"
        using font_size_icons by blast
      ultimately obtain tr c where "calls w3 = calls w1 @ tr" "(c, Raised e) \<in> set tr"
        "\<forall>a. c \<noteq> Call_load_default a"
        using create_icons_raised by blast
      with 1 raised(2) have "calls w3 = calls w @ ((Call_import_PIL, Returned) # tr)"
        "(c, Raised e) \<in> set ((Call_import_PIL, Returned) # tr)" "r = Inl e" by simp_all
      with \<open>\<forall>a. c \<noteq> Call_load_default a\<close> show ?thesis by blast
    next
      case (went_on v w2)
      from create_icons_created[OF went_on(1)] icons_distinct obtain tr where 2:
        "calls w2 = calls w1 @ tr"
        "allocated tr = map (\<lambda>(sz, fn). (sz, sz)) icons"
        "saved tr = map (\<lambda>(sz, fn). icon_path fn) icons"
        "stdout w2 = stdout w1 @ map (\<lambda>(sz, fn). created_line fn sz) icons"
        "\<forall>p. p \<notin> (\<lambda>(sz, fn). icon_path fn) ` set icons \<longrightarrow> files w2 p = files w1 p"
        "\<forall>(sz, fn) \<in> set icons. \<exists>img. files w2 (icon_path fn) = Some img \<and>
            mode img = ''RGB'' \<and> width img = sz \<and> height img = sz"
        by blast
      from went_on(2) show ?thesis
      proof (cases rule: print_allE)
        case printed
        let ?tr = "(Call_import_PIL, Returned) # tr @ map (\<lambda>s. (Call_print s, Returned)) success_banner"
        have "calls w3 = calls w @ ?tr" using 1 2 printed by simp
        moreover have "allocated ?tr = map (\<lambda>(sz, fn). (sz, sz)) icons" using 2 by simp
        moreover have "saved ?tr = map (\<lambda>(sz, fn). icon_path fn) icons" using 2 by simp
        moreover have "stdout w3 = stdout w @ map (\<lambda>(sz, fn). created_line fn sz) icons @ success_banner"
          using 1 2 printed by simp
        moreover have "\<forall>p. p \<notin> (\<lambda>(sz, fn). icon_path fn) ` set icons \<longrightarrow> files w3 p = files w p"
          using 1 2 printed by simp
        moreover have "\<forall>(sz, fn) \<in> set icons. \<exists>img. files w3 (icon_path fn) = Some img \<and>
            mode img = ''RGB'' \<and> width img = sz \<and> height img = sz"
          using 2(6) printed by simp
        ultimately show ?thesis using printed(1) by blast
      next
        case (raised e n)
        let ?tr = "(Call_import_PIL, Returned) # tr @
           map (\<lambda>s. (Call_print s, Returned)) (take n success_banner) @
           [(Call_print (success_banner ! n), Raised e)]"
        have "calls w3 = calls w @ ?tr" using 1 2 raised by simp
        moreover have "(Call_print (success_banner ! n), Raised e) \<in> set ?tr" by simp
        ultimately show ?thesis using raised(2) by blast
      qed
    qed
  qed
qed

section \<open>Runs whose first calls are known\<close>

text \<open>
  When the first calls return, \<open>create_icon\<close> comes to line 39 with the font and the
  extent that lines 19 to 34 give; when measuring raises, it ends there.
\<close>

lemmas head_defs = create_icon_def io_bind_def io_return_def io_raise_def lib_call_def
  Image_new_def ImageDraw_Draw_def try_load_default_def load_default_def measure_text_def
  textbbox_def at_Draw_def at_load_default_def at_textbbox_def

lemma no_font_run:
  assumes "Image_new_fails env w (sz, sz) = None"
    and "Draw_fails env (at_Draw sz w) (blank ''RGB'' (sz, sz) hex_4285f4) = None"
    and "font_size sz = Inr fs"
    and "load_default_fails env (at_load_default sz w) = Some e"
  shows "create_icon env sz fn w =
     io_bind (draw_text env (blank ''RGB'' (sz, sz) hex_4285f4)
                ((sz - fs div 2) div 2, (sz - fs) div 2) ''S'' white None) (\<lambda>img'.
     io_bind (makedirs env icons_dir True) (\<lambda>_.
     io_bind (save env img' (icon_path fn)) (\<lambda>_.
     print env (created_line fn sz))))
       (log_call (Call_load_default None) (Raised e) (at_load_default sz w))"
  using assms by (simp add: head_defs)

lemma measured_run:
  assumes "Image_new_fails env w (sz, sz) = None"
    and "Draw_fails env (at_Draw sz w) (blank ''RGB'' (sz, sz) hex_4285f4) = None"
    and "font_size sz = Inr fs"
    and "load_default_fails env (at_load_default sz w) = None"
    and "textbbox_fails env (at_textbbox sz w) (blank ''RGB'' (sz, sz) hex_4285f4)
           (Some (default_font env)) = None"
    and "text_bbox env (0, 0) ''S'' (Some (default_font env)) = (l, t, rt, b)"
  shows "create_icon env sz fn w =
     io_bind (draw_text env (blank ''RGB'' (sz, sz) hex_4285f4)
                ((sz - (rt - l)) div 2, (sz - (b - t)) div 2) ''S'' white
                (Some (default_font env))) (\<lambda>img'.
     io_bind (makedirs env icons_dir True) (\<lambda>_.
     io_bind (save env img' (icon_path fn)) (\<lambda>_.
     print env (created_line fn sz))))
       (log_call (Call_textbbox (0, 0) ''S'' (Some (default_font env))) Returned
          (at_textbbox sz w))"
  using assms by (simp add: head_defs)

lemma bbox_raised_run:
  assumes "Image_new_fails env w (sz, sz) = None"
    and "Draw_fails env (at_Draw sz w) (blank ''RGB'' (sz, sz) hex_4285f4) = None"
    and "font_size sz = Inr fs"
    and "load_default_fails env (at_load_default sz w) = None"
    and "textbbox_fails env (at_textbbox sz w) (blank ''RGB'' (sz, sz) hex_4285f4)
           (Some (default_font env)) = Some e"
  shows "create_icon env sz fn w =
     (Inl e, log_call (Call_textbbox (0, 0) ''S'' (Some (default_font env))) (Raised e)
               (at_textbbox sz w))"
  using assms by (simp add: head_defs)

lemma calls_at [simp]:
  "calls (at_Draw sz w) = calls w @ [(Call_Image_new ''RGB'' (sz, sz) hex_4285f4, Returned)]"
  "calls (at_load_default sz w) =
     calls w @ [(Call_Image_new ''RGB'' (sz, sz) hex_4285f4, Returned), (Call_Draw, Returned)]"
  "calls (at_textbbox sz w) =
     calls w @ [(Call_Image_new ''RGB'' (sz, sz) hex_4285f4, Returned), (Call_Draw, Returned),
                (Call_load_default None, Returned)]"
  "files (at_Draw sz w) = files w" "files (at_load_default sz w) = files w"
  "files (at_textbbox sz w) = files w"
  "stdout (at_Draw sz w) = stdout w" "stdout (at_load_default sz w) = stdout w"
  "stdout (at_textbbox sz w) = stdout w"
  by (simp_all add: at_Draw_def at_load_default_def at_textbbox_def)

section \<open>Runs in the concrete environments\<close>

lemmas run_defs = create_icon_def io_bind_def io_return_def io_raise_def lib_call_def
  Image_new_def ImageDraw_Draw_def try_load_default_def load_default_def measure_text_def
  textbbox_def draw_text_def makedirs_def save_def print_def log_call_def new_calls_def
  icons_dir_def icon_path_def

lemma env_ok_bbox:
  "text_bbox env_ok (0, 0) s f = (0, 2, 6, 13)"
  "text_bbox env_no_font (0, 0) s f = (0, 2, 6, 13)"
  by (simp_all add: env_ok_def env_no_font_def)

lemma tiny_ok:
  "fst (create_icon env_ok 4 ''tiny.png'' w0) = Inr ()"
  "new_calls w0 (snd (create_icon env_ok 4 ''tiny.png'' w0)) =
     [(Call_Image_new ''RGB'' (4, 4) hex_4285f4, Returned), (Call_Draw, Returned),
      (Call_load_default None, Returned),
      (Call_textbbox (0, 0) ''S'' (Some (Font 0)), Returned),
      (Call_text (- 1, - 4) ''S'' white (Some (Font 0)), Returned),
      (Call_makedirs ''extension/icons'' True, Returned),
      (Call_save ''extension/icons/tiny.png'', Returned),
      (Call_print (created_line ''tiny.png'' 4), Returned)]"
  by (simp_all add: run_defs env_ok_def w0_def font_size_small)

lemma tiny_no_font:
  "fst (create_icon env_no_font 4 ''tiny.png'' w0) = Inr ()"
  "new_calls w0 (snd (create_icon env_no_font 4 ''tiny.png'' w0)) =
     [(Call_Image_new ''RGB'' (4, 4) hex_4285f4, Returned), (Call_Draw, Returned),
      (Call_load_default None, Raised (Exn OtherException ''cannot open resource'')),
      (Call_text (1, 1) ''S'' white None, Returned),
      (Call_makedirs ''extension/icons'' True, Returned),
      (Call_save ''extension/icons/tiny.png'', Returned),
      (Call_print (created_line ''tiny.png'' 4), Returned)]"
  by (simp_all add: run_defs env_no_font_def env_ok_def w0_def font_size_small)

lemma tiny_run:
  "create_icon env_ok 4 ''tiny.png'' w0 = (Inr (), snd (create_icon env_ok 4 ''tiny.png'' w0))"
  "create_icon env_no_font 4 ''tiny.png'' w0 =
     (Inr (), snd (create_icon env_no_font 4 ''tiny.png'' w0))"
  by (simp_all add: prod_eq_iff tiny_ok tiny_no_font)

lemma env_ok_oracles [simp]:
  "import_fails env_ok w = None" "Image_new_fails env_ok w sz = None" "Draw_fails env_ok w img = None"
  "load_default_fails env_ok w = None" "default_font env_ok = Font 0"
  "textbbox_fails env_ok w img f = None" "text_fails env_ok w img xy f = None"
  "makedirs_fails env_ok w p = None" "save_fails env_ok w p img = None" "print_fails env_ok w s = None"
  by (simp_all add: env_ok_def)

lemma env_no_font_oracles [simp]:
  "import_fails env_no_font w = None" "Image_new_fails env_no_font w sz = None"
  "Draw_fails env_no_font w img = None"
  "load_default_fails env_no_font w = Some (Exn OtherException ''cannot open resource'')"
  by (simp_all add: env_no_font_def env_ok_def)

lemma env_ok_cover:
  "text_cover env_ok img xy s fill f = [((fst xy + 1, snd xy + 3), fill), ((fst xy + 2, snd xy + 3), fill)]"
  by (simp add: env_ok_def)

lemma icon16_ok:
  "fst (create_icon env_ok 16 ''icon16.png'' w0) = Inr ()"
  "new_calls w0 (snd (create_icon env_ok 16 ''icon16.png'' w0)) =
     [(Call_Image_new ''RGB'' (16, 16) hex_4285f4, Returned), (Call_Draw, Returned),
      (Call_load_default None, Returned),
      (Call_textbbox (0, 0) ''S'' (Some (Font 0)), Returned),
      (Call_text (5, 2) ''S'' white (Some (Font 0)), Returned),
      (Call_makedirs ''extension/icons'' True, Returned),
      (Call_save ''extension/icons/icon16.png'', Returned),
      (Call_print (created_line ''icon16.png'' 16), Returned)]"
  "stdout (snd (create_icon env_ok 16 ''icon16.png'' w0)) = [created_line ''icon16.png'' 16]"
  "files (snd (create_icon env_ok 16 ''icon16.png'' w0)) ''extension/icons/icon16.png'' =
     Some ((blank ''RGB'' (16, 16) hex_4285f4)
       \<lparr>pixels := paint [((6, 5), white), ((7, 5), white)] (pixels (blank ''RGB'' (16, 16) hex_4285f4))\<rparr>)"
  by (simp_all add: run_defs env_ok_def w0_def font_size_small)

lemma icon16_no_font:
  "fst (create_icon env_no_font 16 ''icon16.png'' w0) = Inr ()"
  "new_calls w0 (snd (create_icon env_no_font 16 ''icon16.png'' w0)) =
     [(Call_Image_new ''RGB'' (16, 16) hex_4285f4, Returned), (Call_Draw, Returned),
      (Call_load_default None, Raised (Exn OtherException ''cannot open resource'')),
      (Call_text (6, 3) ''S'' white None, Returned),
      (Call_makedirs ''extension/icons'' True, Returned),
      (Call_save ''extension/icons/icon16.png'', Returned),
      (Call_print (created_line ''icon16.png'' 16), Returned)]"
  by (simp_all add: run_defs env_no_font_def env_ok_def w0_def font_size_small)

lemma run16_ok:
  "create_icon env_ok 16 ''icon16.png'' w0 =
     (Inr (), snd (create_icon env_ok 16 ''icon16.png'' w0))"
  by (simp add: prod_eq_iff icon16_ok)

lemma run16_no_font:
  "create_icon env_no_font 16 ''icon16.png'' w0 =
     (Inr (), snd (create_icon env_no_font 16 ''icon16.png'' w0))"
  by (simp add: prod_eq_iff icon16_no_font)


lemmas script_defs = script_def try_body_def import_PIL_def run_defs

lemma script_ok:
  "fst (script env_ok w0) = Inr ()"
  "allocated (new_calls w0 (snd (script env_ok w0))) = [(16, 16), (32, 32), (48, 48), (128, 128)]"
  "saved (new_calls w0 (snd (script env_ok w0))) =
     [''extension/icons/icon16.png'', ''extension/icons/icon32.png'',
      ''extension/icons/icon48.png'', ''extension/icons/icon128.png'']"
  "stdout (snd (script env_ok w0)) =
     [created_line ''icon16.png'' 16, created_line ''icon32.png'' 32,
      created_line ''icon48.png'' 48, created_line ''icon128.png'' 128] @ success_banner"
  "snd ` set (new_calls w0 (snd (script env_ok w0))) = {Returned}"
  by (simp_all add: script_defs env_ok_def w0_def font_size_small success_banner_def)

lemma script_no_PIL:
  "fst (script env_no_PIL w0) = Inr ()"
  "new_calls w0 (snd (script env_no_PIL w0)) =
     (Call_import_PIL, Raised (Exn ImportError ''No module named PIL'')) #
     map (\<lambda>s. (Call_print s, Returned)) import_error_lines"
  "stdout (snd (script env_no_PIL w0)) = import_error_lines"
  "files (snd (script env_no_PIL w0)) = Map.empty"
  by (simp_all add: script_defs env_no_PIL_def env_ok_def w0_def import_error_lines_def)

lemma env_bbox_fails_oracles:
  "import_fails env_bbox_fails w = None" "Image_new_fails env_bbox_fails w sz = None"
  "Draw_fails env_bbox_fails w img = None" "load_default_fails env_bbox_fails w = None"
  "default_font env_bbox_fails = Font 0"
  "textbbox_fails env_bbox_fails w img f =
     (if width img = 32 then Some (Exn OtherException ''bad glyph'') else None)"
  "text_bbox env_bbox_fails (0, 0) s f = (0, 2, 6, 13)"
  "text_fails env_bbox_fails w img xy f = None"
  "makedirs_fails env_bbox_fails w p = None" "save_fails env_bbox_fails w p img = None"
  "print_fails env_bbox_fails w s = None"
  by (simp_all add: env_bbox_fails_def env_ok_def)

lemma env_disk_full_oracles:
  "import_fails env_disk_full w = None" "Image_new_fails env_disk_full w sz = None"
  "Draw_fails env_disk_full w img = None" "load_default_fails env_disk_full w = None"
  "default_font env_disk_full = Font 0"
  "textbbox_fails env_disk_full w img f = None"
  "text_bbox env_disk_full (0, 0) s f = (0, 2, 6, 13)"
  "text_fails env_disk_full w img xy f = None"
  "makedirs_fails env_disk_full w p = None"
  "save_fails env_disk_full w p img =
     (if p = ''extension/icons/icon48.png'' then Some (Exn OtherException ''No space left on device'')
      else None)"
  "print_fails env_disk_full w s = None"
  by (simp_all add: env_disk_full_def env_ok_def)

lemma script_bbox_fails:
  "fst (script env_bbox_fails w0) = Inr ()"
  "allocated (new_calls w0 (snd (script env_bbox_fails w0))) = [(16, 16), (32, 32)]"
  "saved (new_calls w0 (snd (script env_bbox_fails w0))) = [''extension/icons/icon16.png'']"
  "stdout (snd (script env_bbox_fails w0)) =
     created_line ''icon16.png'' 16 # error_lines (Exn OtherException ''bad glyph'')"
  by (simp_all add: script_defs env_bbox_fails_oracles w0_def font_size_small error_lines_def)

lemma script_disk_full:
  "fst (script env_disk_full w0) = Inr ()"
  "allocated (new_calls w0 (snd (script env_disk_full w0))) = [(16, 16), (32, 32), (48, 48)]"
  "saved (new_calls w0 (snd (script env_disk_full w0))) =
     [''extension/icons/icon16.png'', ''extension/icons/icon32.png'']"
  "stdout (snd (script env_disk_full w0)) =
     [created_line ''icon16.png'' 16, created_line ''icon32.png'' 32] @
     error_lines (Exn OtherException ''No space left on device'')"
  "files (snd (script env_disk_full w0)) ''extension/icons/icon48.png'' = None"
  by (simp_all add: script_defs env_disk_full_oracles w0_def font_size_small error_lines_def)

lemma script_no_emoji:
  "fst (script env_no_emoji w0) = Inl (Exn OtherException ''codec cannot encode character'')"
  "new_calls w0 (snd (script env_no_emoji w0)) =
     [(Call_import_PIL, Returned),
      (Call_Image_new ''RGB'' (16, 16) hex_4285f4, Returned), (Call_Draw, Returned),
      (Call_load_default None, Returned),
      (Call_textbbox (0, 0) ''S'' (Some (Font 0)), Returned),
      (Call_text (5, 2) ''S'' white (Some (Font 0)), Returned),
      (Call_makedirs ''extension/icons'' True, Returned),
      (Call_save ''extension/icons/icon16.png'', Returned),
      (Call_print (created_line ''icon16.png'' 16),
         Raised (Exn OtherException ''codec cannot encode character'')),
      (Call_print (cross_mark @ '' Error creating icons: codec cannot encode character''),
         Raised (Exn OtherException ''codec cannot encode character''))]"
  "files (snd (script env_no_emoji w0)) ''extension/icons/icon16.png'' \<noteq> None"
  "stdout (snd (script env_no_emoji w0)) = []"
  by (simp_all add: script_defs env_no_emoji_def env_ok_def w0_def font_size_small error_lines_def
        created_line_def check_mark_def cross_mark_def)

section \<open>Placement of the glyph\<close>

text \<open>
  C1: \<open>create_icon\<close> draws the glyph at \<open>((size - W) div 2, (size - H) div 2)\<close>, where
  \<open>W\<close> and \<open>H\<close> are the width and height of the measured bounding box when a font was
  obtained, and the estimate \<open>font_size div 2\<close> and \<open>font_size\<close> when none was. First,
  every call of \<^verbatim>\<open>draw.text\<close> it makes has this position. Second, it makes the call:
  unless \<^verbatim>\<open>Image.new\<close>, \<^verbatim>\<open>ImageDraw.Draw\<close> or \<^verbatim>\<open>textbbox\<close> raised or the size was too
  large for a double, the text is drawn there, whatever the sign of the offsets. The
  division rounds down, and a glyph larger than the icon gets negative offsets.
\<close>

theorem create_icon_centres_glyph:
  assumes run: "create_icon env sz fn w = (r, w')"
  shows "(\<forall>x y s fill f out l t rt b fs W H.
            (Call_text (x, y) s fill f, out) \<in> set (new_calls w w') \<and>
            ((f \<noteq> None \<and> text_bbox env (0, 0) ''S'' f = (l, t, rt, b) \<and> W = rt - l \<and> H = b - t) \<or>
             (f = None \<and> font_size sz = Inr fs \<and> W = fs div 2 \<and> H = fs)) \<longrightarrow>
            x = (sz - W) div 2 \<and> y = (sz - H) div 2) \<and>
         ((\<forall>e. (Call_Image_new ''RGB'' (sz, sz) hex_4285f4, Raised e) \<notin> set (new_calls w w')) \<and>
          (\<forall>e. (Call_Draw, Raised e) \<notin> set (new_calls w w')) \<and>
          (\<forall>xy s f e. (Call_textbbox xy s f, Raised e) \<notin> set (new_calls w w')) \<and>
          (\<exists>fs. font_size sz = Inr fs) \<longrightarrow>
          (\<exists>f W H out.
             ((f = Some (default_font env) \<and>
               (\<exists>l t rt b. text_bbox env (0, 0) ''S'' f = (l, t, rt, b) \<and> W = rt - l \<and> H = b - t)) \<or>
              (f = None \<and> (\<exists>fs. font_size sz = Inr fs \<and> W = fs div 2 \<and> H = fs))) \<and>
             (Call_text ((sz - W) div 2, (sz - H) div 2) ''S'' white f, out)
               \<in> set (new_calls w w')))"
proof (intro conjI)
  show "\<forall>x y s fill f out l t rt b fs W H.
            (Call_text (x, y) s fill f, out) \<in> set (new_calls w w') \<and>
            ((f \<noteq> None \<and> text_bbox env (0, 0) ''S'' f = (l, t, rt, b) \<and> W = rt - l \<and> H = b - t) \<or>
             (f = None \<and> font_size sz = Inr fs \<and> W = fs div 2 \<and> H = fs)) \<longrightarrow>
            x = (sz - W) div 2 \<and> y = (sz - H) div 2"
    using run by (cases rule: create_iconE) (auto simp: font_step_def glyph_extent_def)
  show "(\<forall>e. (Call_Image_new ''RGB'' (sz, sz) hex_4285f4, Raised e) \<notin> set (new_calls w w')) \<and>
          (\<forall>e. (Call_Draw, Raised e) \<notin> set (new_calls w w')) \<and>
          (\<forall>xy s f e. (Call_textbbox xy s f, Raised e) \<notin> set (new_calls w w')) \<and>
          (\<exists>fs. font_size sz = Inr fs) \<longrightarrow>
          (\<exists>f W H out.
             ((f = Some (default_font env) \<and>
               (\<exists>l t rt b. text_bbox env (0, 0) ''S'' f = (l, t, rt, b) \<and> W = rt - l \<and> H = b - t)) \<or>
              (f = None \<and> (\<exists>fs. font_size sz = Inr fs \<and> W = fs div 2 \<and> H = fs))) \<and>
             (Call_text ((sz - W) div 2, (sz - H) div 2) ''S'' white f, out)
               \<in> set (new_calls w w'))"
  proof
    assume h: "(\<forall>e. (Call_Image_new ''RGB'' (sz, sz) hex_4285f4, Raised e) \<notin> set (new_calls w w')) \<and>
          (\<forall>e. (Call_Draw, Raised e) \<notin> set (new_calls w w')) \<and>
          (\<forall>xy s f e. (Call_textbbox xy s f, Raised e) \<notin> set (new_calls w w')) \<and>
          (\<exists>fs. font_size sz = Inr fs)"
    have "\<exists>fs f out. font_size sz = Inr fs \<and>
            (f = None \<or> f = Some (default_font env)) \<and>
            (Call_text ((sz - fst (glyph_extent env fs f)) div 2,
                        (sz - snd (glyph_extent env fs f)) div 2) ''S'' white f, out)
              \<in> set (new_calls w w')"
      using run h by (cases rule: create_iconE) (auto simp: font_step_def)
    then obtain fs f out where fs: "font_size sz = Inr fs"
      and f: "f = None \<or> f = Some (default_font env)"
      and c: "(Call_text ((sz - fst (glyph_extent env fs f)) div 2,
                        (sz - snd (glyph_extent env fs f)) div 2) ''S'' white f, out)
              \<in> set (new_calls w w')"
      by blast
    from f show "\<exists>f W H out.
             ((f = Some (default_font env) \<and>
               (\<exists>l t rt b. text_bbox env (0, 0) ''S'' f = (l, t, rt, b) \<and> W = rt - l \<and> H = b - t)) \<or>
              (f = None \<and> (\<exists>fs. font_size sz = Inr fs \<and> W = fs div 2 \<and> H = fs))) \<and>
             (Call_text ((sz - W) div 2, (sz - H) div 2) ''S'' white f, out)
               \<in> set (new_calls w w')"
    proof
      assume "f = None"
      with fs c show ?thesis
        by (intro exI[of _ None] exI[of _ "fs div 2"] exI[of _ fs] exI[of _ out])
           (simp add: glyph_extent_def)
    next
      assume d: "f = Some (default_font env)"
      obtain l t rt b where bb: "text_bbox env (0, 0) ''S'' (Some (default_font env)) = (l, t, rt, b)"
        by (cases "text_bbox env (0, 0) ''S'' (Some (default_font env))") auto
      with d c show ?thesis
        by (intro exI[of _ "Some (default_font env)"] exI[of _ "rt - l"] exI[of _ "b - t"] exI[of _ out])
           (simp add: glyph_extent_def)
    qed
  qed
qed

theorem create_icon_centres_glyph_witness:
  "fst (create_icon env_ok 4 ''tiny.png'' w0) = Inr () \<and>
   (Call_text (- 1, - 4) ''S'' white (Some (Font 0)), Returned)
     \<in> set (new_calls w0 (snd (create_icon env_ok 4 ''tiny.png'' w0))) \<and>
   text_bbox env_ok (0, 0) ''S'' (Some (Font 0)) = (0, 2, 6, 13) \<and>
   (- 1 :: int) = (4 - (6 - 0)) div 2 \<and> (- 4 :: int) = (4 - (13 - 2)) div 2 \<and>
   fst (create_icon env_no_font 4 ''tiny.png'' w0) = Inr () \<and>
   (Call_text (1, 1) ''S'' white None, Returned)
     \<in> set (new_calls w0 (snd (create_icon env_no_font 4 ''tiny.png'' w0))) \<and>
   font_size 4 = Inr 2 \<and> (1 :: int) = (4 - 2 div 2) div 2 \<and> (1 :: int) = (4 - 2) div 2"
  using create_icon_centres_glyph [OF tiny_run(1)] create_icon_centres_glyph [OF tiny_run(2)]
  by (simp add: tiny_ok tiny_no_font font_size_small env_ok_bbox)

section \<open>The font\<close>

text \<open>
  C2 as stated: the font size \<open>floor (0.6 * size)\<close> is requested from the scalable font. The
  run below refutes it: for size 16 the computed font size is 9, the icon is written, and the one
  call that loads a font is \<^verbatim>\<open>ImageFont.load_default()\<close> with no size; no call asks for
  size 9.
\<close>

theorem font_size_not_requested:
  "font_size 16 = Inr 9 \<and>
   fst (create_icon env_ok 16 ''icon16.png'' w0) = Inr () \<and>
   (Call_load_default None, Returned)
     \<in> set (new_calls w0 (snd (create_icon env_ok 16 ''icon16.png'' w0))) \<and>
   (Call_load_default (Some 9), Returned)
     \<notin> set (new_calls w0 (snd (create_icon env_ok 16 ''icon16.png'' w0)))"
  by (simp add: icon16_ok font_size_small)

text \<open>
  C2, amended: a run of \<open>create_icon\<close> that reaches line 19 computes
  \<open>int(size * 0.6)\<close>, which is \<open>floor (0.6 * size)\<close> for sizes from 0 to \<open>2 ^ 52\<close>, and
  then loads the default font exactly once, with no size argument; and the call of
  \<open>create_icon\<close> raises only if a call other than \<^verbatim>\<open>load_default\<close> raised, so the
  fallback costs no failure.
\<close>

theorem font_size_computed_not_requested:
  assumes run: "create_icon env sz fn w = (r, w')"
    and reached: "Image_new_fails env w (sz, sz) = None"
      "Draw_fails env (at_Draw sz w) (blank ''RGB'' (sz, sz) hex_4285f4) = None"
      "font_size sz = Inr fs"
  shows "(\<exists>out rest. new_calls w w' =
            [(Call_Image_new ''RGB'' (sz, sz) hex_4285f4, Returned), (Call_Draw, Returned),
             (Call_load_default None, out)] @ rest \<and>
            (\<forall>a out'. (Call_load_default a, out') \<notin> set rest)) \<and>
         (0 \<le> sz \<and> sz \<le> 2 ^ 52 \<longrightarrow> fs = \<lfloor>0.6 * real_of_int sz\<rfloor>) \<and>
         ((\<forall>c e. (c, Raised e) \<in> set (new_calls w w') \<longrightarrow> c = Call_load_default None)
            \<longrightarrow> r = Inr ())"
proof (intro conjI)
  show "\<exists>out rest. new_calls w w' =
            [(Call_Image_new ''RGB'' (sz, sz) hex_4285f4, Returned), (Call_Draw, Returned),
             (Call_load_default None, out)] @ rest \<and>
            (\<forall>a out'. (Call_load_default a, out') \<notin> set rest)"
  proof (cases "load_default_fails env (at_load_default sz w)")
    case (Some e)
    from run[unfolded no_font_run[OF reached Some]] show ?thesis
      by (cases rule: finishE) auto
  next
    case None
    show ?thesis
    proof (cases "textbbox_fails env (at_textbbox sz w) (blank ''RGB'' (sz, sz) hex_4285f4)
           (Some (default_font env))")
      case (Some e)
      from run[unfolded bbox_raised_run[OF reached None Some]] show ?thesis by auto
    next
      case n: None
      obtain l t rt b where "text_bbox env (0, 0) ''S'' (Some (default_font env)) = (l, t, rt, b)"
        by (cases "text_bbox env (0, 0) ''S'' (Some (default_font env))") auto
      from run[unfolded measured_run[OF reached None n this]] show ?thesis
        by (cases rule: finishE) auto
    qed
  qed
  show "0 \<le> sz \<and> sz \<le> 2 ^ 52 \<longrightarrow> fs = \<lfloor>0.6 * real_of_int sz\<rfloor>"
    using reached(3) unfolding three_fifths by (auto simp: font_size_small)
  show "(\<forall>c e. (c, Raised e) \<in> set (new_calls w w') \<longrightarrow> c = Call_load_default None)
            \<longrightarrow> r = Inr ()"
    using run reached(3) by (cases rule: create_iconE) (auto simp: font_step_def)
qed

theorem font_size_computed_not_requested_witness:
  "font_size 16 = Inr 9 \<and> (9 :: int) = \<lfloor>0.6 * real_of_int 16\<rfloor> \<and>
   new_calls w0 (snd (create_icon env_ok 16 ''icon16.png'' w0)) =
     [(Call_Image_new ''RGB'' (16, 16) hex_4285f4, Returned), (Call_Draw, Returned),
      (Call_load_default None, Returned)] @
     [(Call_textbbox (0, 0) ''S'' (Some (Font 0)), Returned),
      (Call_text (5, 2) ''S'' white (Some (Font 0)), Returned),
      (Call_makedirs ''extension/icons'' True, Returned),
      (Call_save ''extension/icons/icon16.png'', Returned),
      (Call_print (created_line ''icon16.png'' 16), Returned)] \<and>
   fst (create_icon env_ok 16 ''icon16.png'' w0) = Inr ()"
proof -
  have fs: "font_size 16 = Inr 9" by (simp add: font_size_small)
  from font_size_computed_not_requested [OF run16_ok _ _ fs] show ?thesis
    unfolding three_fifths by (simp add: icon16_ok fs)
qed

text \<open>
  C3: when loading the font raises, the glyph is drawn with no font at the position computed
  from the estimate: width \<open>fs div 2\<close> and height \<open>fs\<close>, where \<open>fs\<close> is the font size
  \<open>int(size * 0.6)\<close> of line 17, which is \<open>floor (0.6 * size)\<close> for sizes from 0 to
  \<open>2 ^ 52\<close>; nothing is measured, and nothing else is drawn.
\<close>

theorem fallback_estimate:
  assumes run: "create_icon env sz fn w = (r, w')"
    and reached: "Image_new_fails env w (sz, sz) = None"
      "Draw_fails env (at_Draw sz w) (blank ''RGB'' (sz, sz) hex_4285f4) = None"
      "font_size sz = Inr fs"
    and no_font: "load_default_fails env (at_load_default sz w) = Some e"
  shows "(0 \<le> sz \<and> sz \<le> 2 ^ 52 \<longrightarrow> fs = \<lfloor>0.6 * real_of_int sz\<rfloor>) \<and>
         glyph_extent env fs None = (fs div 2, fs) \<and>
         (\<exists>out rest. new_calls w w' =
            [(Call_Image_new ''RGB'' (sz, sz) hex_4285f4, Returned), (Call_Draw, Returned),
             (Call_load_default None, Raised e),
             (Call_text ((sz - fs div 2) div 2, (sz - fs) div 2) ''S'' white None, out)] @ rest \<and>
            (\<forall>xy s fill f out'. (Call_text xy s fill f, out') \<notin> set rest) \<and>
            (\<forall>xy s f out'. (Call_textbbox xy s f, out') \<notin> set rest))"
proof -
  have "0 \<le> sz \<and> sz \<le> 2 ^ 52 \<longrightarrow> fs = \<lfloor>0.6 * real_of_int sz\<rfloor>"
    using reached(3) unfolding three_fifths by (auto simp: font_size_small)
  moreover have "glyph_extent env fs None = (fs div 2, fs)" by (simp add: glyph_extent_def)
  moreover from run[unfolded no_font_run[OF reached no_font]]
  have "\<exists>out rest. new_calls w w' =
            [(Call_Image_new ''RGB'' (sz, sz) hex_4285f4, Returned), (Call_Draw, Returned),
             (Call_load_default None, Raised e),
             (Call_text ((sz - fs div 2) div 2, (sz - fs) div 2) ''S'' white None, out)] @ rest \<and>
            (\<forall>xy s fill f out'. (Call_text xy s fill f, out') \<notin> set rest) \<and>
            (\<forall>xy s f out'. (Call_textbbox xy s f, out') \<notin> set rest)"
    by (cases rule: finishE) auto
  ultimately show ?thesis by blast
qed

theorem fallback_estimate_witness:
  "font_size 16 = Inr 9 \<and> \<lfloor>0.6 * real_of_int 16\<rfloor> = 9 \<and>
   load_default_fails env_no_font (at_load_default 16 w0) =
     Some (Exn OtherException ''cannot open resource'') \<and>
   new_calls w0 (snd (create_icon env_no_font 16 ''icon16.png'' w0)) =
     [(Call_Image_new ''RGB'' (16, 16) hex_4285f4, Returned), (Call_Draw, Returned),
      (Call_load_default None, Raised (Exn OtherException ''cannot open resource'')),
      (Call_text ((16 - 9 div 2) div 2, (16 - 9) div 2) ''S'' white None, Returned)] @
     [(Call_makedirs ''extension/icons'' True, Returned),
      (Call_save ''extension/icons/icon16.png'', Returned),
      (Call_print (created_line ''icon16.png'' 16), Returned)]"
proof -
  have fs: "font_size 16 = Inr 9" by (simp add: font_size_small)
  from fallback_estimate [OF run16_no_font _ _ fs,
      of "Exn OtherException ''cannot open resource''"]
  show ?thesis unfolding three_fifths by (simp add: icon16_no_font fs)
qed

text \<open>
  C8: an exception of \<^verbatim>\<open>load_default\<close>, of any class, is caught on line 24: the run goes
  on to draw the glyph with no font at the estimated position; if the call of \<open>create_icon\<close>
  raises, the exception is that of a later call that is not \<^verbatim>\<open>load_default\<close>; and if
  no other call raises, \<open>create_icon\<close> returns.
\<close>

theorem font_loading_never_propagates:
  assumes run: "create_icon env sz fn w = (r, w')"
    and reached: "Image_new_fails env w (sz, sz) = None"
      "Draw_fails env (at_Draw sz w) (blank ''RGB'' (sz, sz) hex_4285f4) = None"
      "font_size sz = Inr fs"
    and raised: "load_default_fails env (at_load_default sz w) = Some e"
  shows "(\<exists>out rest. new_calls w w' =
            [(Call_Image_new ''RGB'' (sz, sz) hex_4285f4, Returned), (Call_Draw, Returned),
             (Call_load_default None, Raised e),
             (Call_text ((sz - fs div 2) div 2, (sz - fs) div 2) ''S'' white None, out)] @ rest) \<and>
         (\<forall>e'. r = Inl e' \<longrightarrow>
            (\<exists>c pre. (\<forall>a. c \<noteq> Call_load_default a) \<and> new_calls w w' = pre @ [(c, Raised e')])) \<and>
         ((\<forall>c e'. (c, Raised e') \<in> set (new_calls w w') \<longrightarrow> c = Call_load_default None)
            \<longrightarrow> r = Inr ())"
  using run[unfolded no_font_run[OF reached raised]]
  by (cases rule: finishE) auto

theorem font_loading_never_propagates_witness:
  "load_default_fails env_no_font (at_load_default 16 w0) =
     Some (Exn OtherException ''cannot open resource'') \<and>
   fst (create_icon env_no_font 16 ''icon16.png'' w0) = Inr () \<and>
   new_calls w0 (snd (create_icon env_no_font 16 ''icon16.png'' w0)) =
     [(Call_Image_new ''RGB'' (16, 16) hex_4285f4, Returned), (Call_Draw, Returned),
      (Call_load_default None, Raised (Exn OtherException ''cannot open resource'')),
      (Call_text (6, 3) ''S'' white None, Returned)] @
     [(Call_makedirs ''extension/icons'' True, Returned),
      (Call_save ''extension/icons/icon16.png'', Returned),
      (Call_print (created_line ''icon16.png'' 16), Returned)]"
proof -
  have fs: "font_size 16 = Inr 9" by (simp add: font_size_small)
  from font_loading_never_propagates [OF run16_no_font _ _ fs,
      of "Exn OtherException ''cannot open resource''"]
  show ?thesis by (simp add: icon16_no_font)
qed

section \<open>The bitmap\<close>

text \<open>
  C4: the first call of \<open>create_icon\<close> allocates an RGB bitmap of \<open>size\<close> by \<open>size\<close>
  pixels filled with \<^verbatim>\<open>#4285f4\<close>, that is (0x42, 0x85, 0xf4), at every pixel; unless a call
  other than \<^verbatim>\<open>load_default\<close> raises, the bitmap is saved; and every file saved is an
  RGB bitmap of that size, whose pixels not covered by the glyph still have the background colour.
\<close>

theorem background_fill:
  assumes run: "create_icon env sz fn w = (r, w')"
  shows "(\<exists>out tr. new_calls w w' = (Call_Image_new ''RGB'' (sz, sz) hex_4285f4, out) # tr) \<and>
         hex_4285f4 = (0x42, 0x85, 0xf4) \<and>
         (\<forall>x y. 0 \<le> x \<and> x < sz \<and> 0 \<le> y \<and> y < sz \<longrightarrow>
            pixels (blank ''RGB'' (sz, sz) hex_4285f4) (x, y) = Some hex_4285f4) \<and>
         ((\<exists>fs. font_size sz = Inr fs) \<and>
          (\<forall>c e. (c, Raised e) \<in> set (new_calls w w') \<longrightarrow> c = Call_load_default None) \<longrightarrow>
            (Call_save (icon_path fn), Returned) \<in> set (new_calls w w')) \<and>
         (\<forall>path. (Call_save path, Returned) \<in> set (new_calls w w') \<longrightarrow>
            (\<exists>img. files w' path = Some img \<and> mode img = ''RGB'' \<and>
               width img = sz \<and> height img = sz \<and>
               dom (pixels img) = {(x, y). 0 \<le> x \<and> x < sz \<and> 0 \<le> y \<and> y < sz} \<and>
               (\<forall>xy s fill f out p. (Call_text xy s fill f, out) \<in> set (new_calls w w') \<and>
                   p \<in> dom (pixels img) \<and>
                   p \<notin> fst ` set (text_cover env (blank ''RGB'' (sz, sz) hex_4285f4) xy s fill f) \<longrightarrow>
                   pixels img p = Some hex_4285f4)))"
  using run
  by (cases rule: create_iconE)
     (auto simp: font_step_def hex_4285f4_def paint_outside dom_paint dom_blank split: if_splits)

theorem background_fill_witness:
  "(Call_save ''extension/icons/icon16.png'', Returned)
     \<in> set (new_calls w0 (snd (create_icon env_ok 16 ''icon16.png'' w0))) \<and>
   (Call_text (5, 2) ''S'' white (Some (Font 0)), Returned)
     \<in> set (new_calls w0 (snd (create_icon env_ok 16 ''icon16.png'' w0))) \<and>
   text_cover env_ok (blank ''RGB'' (16, 16) hex_4285f4) (5, 2) ''S'' white (Some (Font 0)) =
     [((6, 5), white), ((7, 5), white)] \<and>
   (\<exists>img. files (snd (create_icon env_ok 16 ''icon16.png'' w0)) ''extension/icons/icon16.png'' = Some img \<and>
      mode img = ''RGB'' \<and> width img = 16 \<and> height img = 16 \<and>
      pixels img (0, 0) = Some (0x42, 0x85, 0xf4) \<and>
      pixels img (15, 15) = Some (0x42, 0x85, 0xf4) \<and>
      pixels img (6, 5) = Some (255, 255, 255) \<and>
      pixels img (16, 0) = None)"
proof -
  define W where "W = snd (create_icon env_ok 16 ''icon16.png'' w0)"
  note ev = icon16_ok [folded W_def]
  have sv: "(Call_save ''extension/icons/icon16.png'', Returned) \<in> set (new_calls w0 W)"
    and tx: "(Call_text (5, 2) ''S'' white (Some (Font 0)), Returned) \<in> set (new_calls w0 W)"
    by (simp_all add: ev)
  have cover: "text_cover env_ok (blank ''RGB'' (16, 16) hex_4285f4) (5, 2) ''S'' white (Some (Font 0)) =
     [((6, 5), white), ((7, 5), white)]"
    by (simp add: env_ok_cover)
  from background_fill [OF run16_ok, folded W_def] sv
  obtain img where img: "files W ''extension/icons/icon16.png'' = Some img"
      "mode img = ''RGB''" "width img = 16" "height img = 16"
      "dom (pixels img) = {(x, y). 0 \<le> x \<and> x < 16 \<and> 0 \<le> y \<and> y < 16}"
    and bg: "\<forall>xy s fill f out p. (Call_text xy s fill f, out) \<in> set (new_calls w0 W) \<and>
                   p \<in> dom (pixels img) \<and>
                   p \<notin> fst ` set (text_cover env_ok (blank ''RGB'' (16, 16) hex_4285f4) xy s fill f) \<longrightarrow>
                   pixels img p = Some hex_4285f4"
    by blast
  have "(0, 0) \<in> dom (pixels img)" "(15, 15) \<in> dom (pixels img)" "(16, 0) \<notin> dom (pixels img)"
    unfolding img(5) by simp_all
  moreover have "(0, 0) \<notin> fst ` set [((6 :: int, 5 :: int), white), ((7, 5), white)]"
    "(15, 15) \<notin> fst ` set [((6 :: int, 5 :: int), white), ((7, 5), white)]" by simp_all
  ultimately have px: "pixels img (0, 0) = Some hex_4285f4" "pixels img (15, 15) = Some hex_4285f4"
    "pixels img (16, 0) = None"
    using bg tx cover by (metis, metis, blast)
  have "img = (blank ''RGB'' (16, 16) hex_4285f4)
       \<lparr>pixels := paint [((6, 5), white), ((7, 5), white)] (pixels (blank ''RGB'' (16, 16) hex_4285f4))\<rparr>"
    using img(1) ev(4) by simp
  then have "pixels img (6, 5) = Some white"
    by (simp add: paint_def dom_blank)
  then show ?thesis
    using sv tx cover img px unfolding W_def by (simp add: hex_4285f4_def white_def)
qed

section \<open>The success message\<close>

text \<open>
  C9: \<open>create_icon\<close> prints nothing but its success line, at most once; the print is the call
  right after the save that returned, so the file exists when the line is printed; and unless a
  call other than \<^verbatim>\<open>load_default\<close> raises, the line is printed.
\<close>

theorem created_line_after_save:
  assumes run: "create_icon env sz fn w = (r, w')"
  shows "(stdout w' = stdout w \<or> stdout w' = stdout w @ [created_line fn sz]) \<and>
         (stdout w' \<noteq> stdout w \<longrightarrow>
            (\<exists>img. files w' (icon_path fn) = Some img) \<and>
            (\<exists>pre. new_calls w w' =
               pre @ [(Call_save (icon_path fn), Returned),
                      (Call_print (created_line fn sz), Returned)])) \<and>
         (\<forall>s out. (Call_print s, out) \<in> set (new_calls w w') \<longrightarrow>
            s = created_line fn sz \<and>
            (\<exists>img. files w' (icon_path fn) = Some img) \<and>
            (\<exists>pre. new_calls w w' = pre @ [(Call_save (icon_path fn), Returned), (Call_print s, out)])) \<and>
         ((\<exists>fs. font_size sz = Inr fs) \<and>
          (\<forall>c e. (c, Raised e) \<in> set (new_calls w w') \<longrightarrow> c = Call_load_default None) \<longrightarrow>
            stdout w' = stdout w @ [created_line fn sz])"
  using run
  by (cases rule: create_iconE) (auto simp: font_step_def)

theorem created_line_after_save_witness:
  "stdout (snd (create_icon env_ok 16 ''icon16.png'' w0)) = stdout w0 @ [created_line ''icon16.png'' 16] \<and>
   stdout (snd (create_icon env_ok 16 ''icon16.png'' w0)) \<noteq> stdout w0 \<and>
   (\<exists>img. files (snd (create_icon env_ok 16 ''icon16.png'' w0)) (icon_path ''icon16.png'') = Some img) \<and>
   new_calls w0 (snd (create_icon env_ok 16 ''icon16.png'' w0)) =
     [(Call_Image_new ''RGB'' (16, 16) hex_4285f4, Returned), (Call_Draw, Returned),
      (Call_load_default None, Returned),
      (Call_textbbox (0, 0) ''S'' (Some (Font 0)), Returned),
      (Call_text (5, 2) ''S'' white (Some (Font 0)), Returned),
      (Call_makedirs ''extension/icons'' True, Returned)] @
     [(Call_save (icon_path ''icon16.png''), Returned),
      (Call_print (created_line ''icon16.png'' 16), Returned)]"
proof -
  have out0: "stdout w0 = []" by (simp add: w0_def)
  from created_line_after_save [OF run16_ok] show ?thesis
    by (simp add: icon16_ok icon_path_def out0)
qed

section \<open>The batch\<close>

text \<open>
  C7: a run of the script in which no call raises, \<^verbatim>\<open>load_default\<close> apart, returns; it
  allocates four bitmaps, of sizes 16, 32, 48 and 128 in this order, one per call of
  \<open>create_icon\<close>; it saves exactly four files, \<^verbatim>\<open>icon16.png\<close>, \<^verbatim>\<open>icon32.png\<close>,
  \<^verbatim>\<open>icon48.png\<close> and \<^verbatim>\<open>icon128.png\<close> under \<^verbatim>\<open>extension/icons/\<close>, in this order,
  each an RGB bitmap of the size in its name; no other file changes; and it prints the four
  success lines and the closing lines.
\<close>

theorem script_writes_four_icons:
  assumes run: "script env w = (r, w')"
    and quiet: "\<forall>c e. (c, Raised e) \<in> set (new_calls w w') \<longrightarrow> c = Call_load_default None"
  shows "r = Inr () \<and>
         allocated (new_calls w w') = [(16, 16), (32, 32), (48, 48), (128, 128)] \<and>
         saved (new_calls w w') =
           [''extension/icons/icon16.png'', ''extension/icons/icon32.png'',
            ''extension/icons/icon48.png'', ''extension/icons/icon128.png''] \<and>
         (\<forall>(sz, fn) \<in> set [(16, ''icon16.png''), (32, ''icon32.png''), (48, ''icon48.png''),
                             (128, ''icon128.png'')].
            \<exists>img. files w' (''extension/icons/'' @ fn) = Some img \<and>
              mode img = ''RGB'' \<and> width img = sz \<and> height img = sz) \<and>
         (\<forall>p. p \<notin> {''extension/icons/icon16.png'', ''extension/icons/icon32.png'',
                  ''extension/icons/icon48.png'', ''extension/icons/icon128.png''} \<longrightarrow>
              files w' p = files w p) \<and>
         stdout w' = stdout w @
           [created_line ''icon16.png'' 16, created_line ''icon32.png'' 32,
            created_line ''icon48.png'' 48, created_line ''icon128.png'' 128] @ success_banner"
proof -
  obtain r0 w3 where body: "try_body env w = (r0, w3)" by (cases "try_body env w")
  from try_body_cases[OF body] obtain tr where tr: "calls w3 = calls w @ tr"
    and cases: "(\<exists>e c. r0 = Inl e \<and> (c, Raised e) \<in> set tr \<and> (\<forall>a. c \<noteq> Call_load_default a)) \<or>
            (r0 = Inr () \<and>
             allocated tr = map (\<lambda>(sz, fn). (sz, sz)) icons \<and>
             saved tr = map (\<lambda>(sz, fn). icon_path fn) icons \<and>
             stdout w3 = stdout w @ map (\<lambda>(sz, fn). created_line fn sz) icons @ success_banner \<and>
             (\<forall>p. p \<notin> (\<lambda>(sz, fn). icon_path fn) ` set icons \<longrightarrow> files w3 p = files w p) \<and>
             (\<forall>(sz, fn) \<in> set icons. \<exists>img. files w3 (icon_path fn) = Some img \<and>
                  mode img = ''RGB'' \<and> width img = sz \<and> height img = sz))"
    by blast
  have "\<not> (\<exists>e c. r0 = Inl e \<and> (c, Raised e) \<in> set tr \<and> (\<forall>a. c \<noteq> Call_load_default a))"
  proof
    assume "\<exists>e c. r0 = Inl e \<and> (c, Raised e) \<in> set tr \<and> (\<forall>a. c \<noteq> Call_load_default a)"
    then obtain e c where e: "r0 = Inl e" "(c, Raised e) \<in> set tr" "\<forall>a. c \<noteq> Call_load_default a"
      by blast
    from script_handler[OF body[unfolded e(1)] run] obtain tr' where "calls w' = calls w3 @ tr'"
      by blast
    with tr have "new_calls w w' = tr @ tr'" by simp
    with e(2) quiet have "c = Call_load_default None" by simp
    with e(3) show False by simp
  qed
  with cases have ok: "r0 = Inr ()"
      "allocated tr = map (\<lambda>(sz, fn). (sz, sz)) icons"
      "saved tr = map (\<lambda>(sz, fn). icon_path fn) icons"
      "stdout w3 = stdout w @ map (\<lambda>(sz, fn). created_line fn sz) icons @ success_banner"
      "\<forall>p. p \<notin> (\<lambda>(sz, fn). icon_path fn) ` set icons \<longrightarrow> files w3 p = files w p"
      "\<forall>(sz, fn) \<in> set icons. \<exists>img. files w3 (icon_path fn) = Some img \<and>
                  mode img = ''RGB'' \<and> width img = sz \<and> height img = sz"
    by blast+
  from run body ok(1) have same: "r = Inr ()" "w' = w3" by (simp_all add: script_def)
  have "new_calls w w' = tr" using tr same by simp
  then show ?thesis
    using ok(2-6) same by (simp add: icons_def icon_path_def)
qed

theorem script_writes_four_icons_witness:
  "fst (script env_ok w0) = Inr () \<and>
   allocated (new_calls w0 (snd (script env_ok w0))) = [(16, 16), (32, 32), (48, 48), (128, 128)] \<and>
   saved (new_calls w0 (snd (script env_ok w0))) =
     [''extension/icons/icon16.png'', ''extension/icons/icon32.png'',
      ''extension/icons/icon48.png'', ''extension/icons/icon128.png''] \<and>
   (\<exists>img. files (snd (script env_ok w0)) ''extension/icons/icon128.png'' = Some img \<and>
      mode img = ''RGB'' \<and> width img = 128 \<and> height img = 128) \<and>
   files (snd (script env_ok w0)) ''extension/icons/icon64.png'' = None \<and>
   stdout (snd (script env_ok w0)) =
     [created_line ''icon16.png'' 16, created_line ''icon32.png'' 32,
      created_line ''icon48.png'' 48, created_line ''icon128.png'' 128] @ success_banner"
proof -
  have run: "script env_ok w0 = (Inr (), snd (script env_ok w0))"
    by (simp add: prod_eq_iff script_ok)
  have quiet: "\<forall>c e. (c, Raised e) \<in> set (new_calls w0 (snd (script env_ok w0))) \<longrightarrow>
      c = Call_load_default None"
  proof (intro allI impI)
    fix c e assume "(c, Raised e) \<in> set (new_calls w0 (snd (script env_ok w0)))"
    then have "snd (c, Raised e) \<in> snd ` set (new_calls w0 (snd (script env_ok w0)))"
      by (rule imageI)
    then show "c = Call_load_default None" by (simp add: script_ok)
  qed
  have out0: "stdout w0 = []" "files w0 = Map.empty" by (simp_all add: w0_def)
  from script_writes_four_icons [OF run quiet] show ?thesis
    by (simp add: out0 script_ok(1))
qed

text \<open>
  C5: when the import on line 7 raises \<^verbatim>\<open>ImportError\<close>, no icon is attempted: no bitmap is
  allocated, nothing is saved, no file changes; after the import the script only prints lines of
  the instructions of lines 57 to 63, and it prints all seven of them and returns unless a
  \<^verbatim>\<open>print\<close> raises.
\<close>

theorem missing_PIL_writes_nothing:
  assumes missing: "import_fails env w = Some e" "exn_class e = ImportError"
    and run: "script env w = (r, w')"
  shows "files w' = files w \<and>
         allocated (new_calls w w') = [] \<and> saved (new_calls w w') = [] \<and>
         (\<exists>tr. new_calls w w' = (Call_import_PIL, Raised e) # tr \<and>
            (\<forall>c out. (c, out) \<in> set tr \<longrightarrow> (\<exists>s. c = Call_print s \<and> s \<in> set import_error_lines))) \<and>
         ((\<forall>s e'. (Call_print s, Raised e') \<notin> set (new_calls w w')) \<longrightarrow>
            r = Inr () \<and> stdout w' = stdout w @ import_error_lines \<and>
            new_calls w w' = (Call_import_PIL, Raised e) #
              map (\<lambda>s. (Call_print s, Returned)) import_error_lines)"
proof -
  let ?w1 = "log_call Call_import_PIL (Raised e) w"
  have body: "try_body env w = (Inl e, ?w1)"
    using missing(1) by (simp add: try_body_def io_bind_def import_PIL_def lib_call_def)
  with run missing(2) have "print_all env import_error_lines ?w1 = (r, w')"
    by (simp add: script_def)
  then show ?thesis
  proof (cases rule: print_allE)
    case printed
    then show ?thesis by auto
  next
    case (raised e' n)
    then have "calls w' = calls w @ (Call_import_PIL, Raised e) #
        map (\<lambda>s. (Call_print s, Returned)) (take n import_error_lines) @
        [(Call_print (import_error_lines ! n), Raised e')]" by simp
    with raised show ?thesis by (auto dest: in_set_takeD)
  qed
qed

theorem missing_PIL_writes_nothing_witness:
  "import_fails env_no_PIL w0 = Some (Exn ImportError ''No module named PIL'') \<and>
   fst (script env_no_PIL w0) = Inr () \<and>
   files (snd (script env_no_PIL w0)) = Map.empty \<and>
   saved (new_calls w0 (snd (script env_no_PIL w0))) = [] \<and>
   stdout (snd (script env_no_PIL w0)) = import_error_lines"
proof -
  have missing: "import_fails env_no_PIL w0 = Some (Exn ImportError ''No module named PIL'')"
    by (simp add: env_no_PIL_def)
  have run: "script env_no_PIL w0 = (Inr (), snd (script env_no_PIL w0))"
    by (simp add: prod_eq_iff script_no_PIL)
  have out0: "stdout w0 = []" "files w0 = Map.empty" by (simp_all add: w0_def)
  from missing_PIL_writes_nothing [OF missing _ run] show ?thesis
    by (simp add: script_no_PIL missing out0)
qed

text \<open>
  C6 as stated: an exception at the \<open>k\<close>-th icon leaves exactly \<open>k - 1\<close> files, and an error
  message is printed. The run below refutes it for \<open>k = 1\<close>: the output stream cannot encode
  the emoji, so the \<^verbatim>\<open>print\<close> on line 44 raises in the first call of \<open>create_icon\<close>, after
  line 43 has saved \<^verbatim>\<open>icon16.png\<close>. One file exists, not none; and the handler's own
  \<^verbatim>\<open>print\<close> on line 66 raises too, so no error message is printed.
\<close>

theorem exception_after_save:
  "fst (script env_no_emoji w0) = Inl (Exn OtherException ''codec cannot encode character'') \<and>
   new_calls w0 (snd (script env_no_emoji w0)) =
     [(Call_import_PIL, Returned),
      (Call_Image_new ''RGB'' (16, 16) hex_4285f4, Returned), (Call_Draw, Returned),
      (Call_load_default None, Returned),
      (Call_textbbox (0, 0) ''S'' (Some (Font 0)), Returned),
      (Call_text (5, 2) ''S'' white (Some (Font 0)), Returned),
      (Call_makedirs ''extension/icons'' True, Returned),
      (Call_save ''extension/icons/icon16.png'', Returned),
      (Call_print (created_line ''icon16.png'' 16),
         Raised (Exn OtherException ''codec cannot encode character'')),
      (Call_print (cross_mark @ '' Error creating icons: codec cannot encode character''),
         Raised (Exn OtherException ''codec cannot encode character''))] \<and>
   files (snd (script env_no_emoji w0)) ''extension/icons/icon16.png'' \<noteq> None \<and>
   stdout (snd (script env_no_emoji w0)) = []"
  by (simp add: script_no_emoji)

text \<open>
  C6, amended: when the call of \<open>create_icon\<close> for the icon of index \<open>k\<close> raises an exception
  of class \<^verbatim>\<open>Exception\<close> other than \<^verbatim>\<open>ImportError\<close>, after the calls before it
  returned, the script goes on with the handler of lines 65 to 67 and nothing else: the bitmaps
  allocated are those of the first \<open>k + 1\<close> icons, so no earlier icon is rendered again and no
  later one attempted; the files saved are those of the first \<open>k\<close> icons, and that of icon
  \<open>k\<close> as well exactly when the exception is that of the \<^verbatim>\<open>print\<close> on line 44; the files
  of the earlier icons and all files that existed before are still there; and unless a
  \<^verbatim>\<open>print\<close> raises, the script returns, having printed the success lines of the first
  \<open>k\<close> icons and the two error lines with the exception's message, and having changed no file
  but those of the first \<open>k\<close> icons.
\<close>

theorem batch_halts_at_failure:
  assumes k: "k < length icons" "icons ! k = (sz, fn)"
    and import: "import_PIL env w = (Inr u, w1)"
    and before: "create_icons env (take k icons) w1 = (Inr v, w2)"
    and fails: "create_icon env sz fn w2 = (Inl e, w3)"
    and cls: "exn_class e = OtherException"
    and run: "script env w = (r, w')"
  shows "print_all env (error_lines e) w3 = (r, w') \<and>
         allocated (new_calls w w') = map (\<lambda>(sz, fn). (sz, sz)) (take (Suc k) icons) \<and>
         saved (new_calls w w') = map (\<lambda>(sz, fn). icon_path fn) (take k icons) @
            (if (Call_print (created_line fn sz), Raised e) \<in> set (new_calls w2 w3)
             then [icon_path fn] else []) \<and>
         (\<forall>j<k. files w' (icon_path (snd (icons ! j))) \<noteq> None) \<and>
         (\<forall>p. files w p \<noteq> None \<longrightarrow> files w' p \<noteq> None) \<and>
         ((Call_print (created_line fn sz), Raised e) \<in> set (new_calls w2 w3) \<longrightarrow>
            files w' (icon_path fn) \<noteq> None) \<and>
         ((\<forall>s e'. (Call_print s, Raised e') \<notin> set (new_calls w w')) \<longrightarrow>
            r = Inr () \<and>
            stdout w' = stdout w @ map (\<lambda>(sz, fn). created_line fn sz) (take k icons) @ error_lines e \<and>
            (\<forall>p. p \<notin> (\<lambda>(sz, fn). icon_path fn) ` set (take k icons) \<longrightarrow> files w' p = files w p))"
proof -
  from fails have fails': "create_icon env (fst (icons ! k)) (snd (icons ! k)) w2 = (Inl e, w3)"
    by (simp add: k(2))
  have body: "try_body env w = (Inl e, w3)"
    using import k(1) before fails' by (rule try_body_stops)
  with run cls have handler: "print_all env (error_lines e) w3 = (r, w')"
    by (simp add: script_def)
  from import_PIL_cases[OF import] have 1: "calls w1 = calls w @ [(Call_import_PIL, Returned)]"
    "files w1 = files w" "stdout w1 = stdout w"
    by auto
  have "distinct (map snd (take k icons))"
    using icons_distinct by (simp add: take_map[symmetric] distinct_take)
  with create_icons_created[OF before] obtain tr2 where 2: "calls w2 = calls w1 @ tr2"
    "allocated tr2 = map (\<lambda>(sz, fn). (sz, sz)) (take k icons)"
    "saved tr2 = map (\<lambda>(sz, fn). icon_path fn) (take k icons)"
    "stdout w2 = stdout w1 @ map (\<lambda>(sz, fn). created_line fn sz) (take k icons)"
    "\<forall>p. p \<notin> (\<lambda>(sz, fn). icon_path fn) ` set (take k icons) \<longrightarrow> files w2 p = files w1 p"
    "\<forall>p. files w1 p \<noteq> None \<longrightarrow> files w2 p \<noteq> None"
    "\<forall>(sz, fn) \<in> set (take k icons). \<exists>img. files w2 (icon_path fn) = Some img"
    by blast
  from create_icon_raised[OF fails] obtain tr3 where 3: "calls w3 = calls w2 @ tr3"
    "allocated tr3 = [(sz, sz)]" "stdout w3 = stdout w2"
    "(saved tr3 = [] \<and> files w3 = files w2 \<and>
             (\<forall>s. (Call_print s, Raised e) \<notin> set tr3)) \<or>
            (saved tr3 = [icon_path fn] \<and> (\<exists>img. files w3 = (files w2)(icon_path fn \<mapsto> img)) \<and>
             (Call_print (created_line fn sz), Raised e) \<in> set tr3)"
    by blast
  from print_all_trace[OF handler] obtain tr4 where 4: "calls w' = calls w3 @ tr4"
    "allocated tr4 = []" "saved tr4 = []" "files w' = files w3"
    "(\<forall>s e. (Call_print s, Raised e) \<notin> set tr4) \<longrightarrow>
              r = Inr () \<and> stdout w' = stdout w3 @ error_lines e"
    by blast
  have all: "calls w' = calls w @ ((Call_import_PIL, Returned) # tr2 @ tr3 @ tr4)"
    using 1 2(1) 3(1) 4(1) by simp
  have tr: "new_calls w w' = (Call_import_PIL, Returned) # tr2 @ tr3 @ tr4"
    using all by (rule new_calls_append)
  have tr3: "new_calls w2 w3 = tr3" using 3(1) by (rule new_calls_append)
  have take: "take (Suc k) icons = take k icons @ [(sz, fn)]"
    using k by (simp add: take_Suc_conv_app_nth)
  have keep: "\<And>p. files w2 p \<noteq> None \<Longrightarrow> files w3 p \<noteq> None"
    using 3(4) by auto
  have a: "allocated (new_calls w w') = map (\<lambda>(sz, fn). (sz, sz)) (take (Suc k) icons)"
    unfolding tr take using 2(2) 3(2) 4(2) by simp
  have b: "saved (new_calls w w') = map (\<lambda>(sz, fn). icon_path fn) (take k icons) @
            (if (Call_print (created_line fn sz), Raised e) \<in> set (new_calls w2 w3)
             then [icon_path fn] else [])"
    unfolding tr tr3 using 2(3) 3(4) 4(3) by auto
  have c: "\<forall>j<k. files w' (icon_path (snd (icons ! j))) \<noteq> None"
  proof (intro allI impI)
    fix j assume j: "j < k"
    with k(1) have "icons ! j \<in> set (take k icons)"
      by (metis length_take min.absorb2 less_imp_le nth_mem nth_take)
    with 2(7) have "files w2 (icon_path (snd (icons ! j))) \<noteq> None" by (auto simp: case_prod_beta)
    then show "files w' (icon_path (snd (icons ! j))) \<noteq> None" using keep 4(4) by simp
  qed
  have d: "\<forall>p. files w p \<noteq> None \<longrightarrow> files w' p \<noteq> None"
    using 1(2) 2(6) keep 4(4) by simp
  have e: "(Call_print (created_line fn sz), Raised e) \<in> set (new_calls w2 w3) \<longrightarrow>
            files w' (icon_path fn) \<noteq> None"
    unfolding tr3 using 3(4) 4(4) by auto
  have f: "(\<forall>s e'. (Call_print s, Raised e') \<notin> set (new_calls w w')) \<longrightarrow>
            r = Inr () \<and>
            stdout w' = stdout w @ map (\<lambda>(sz, fn). created_line fn sz) (take k icons) @ error_lines e \<and>
            (\<forall>p. p \<notin> (\<lambda>(sz, fn). icon_path fn) ` set (take k icons) \<longrightarrow> files w' p = files w p)"
  proof
    assume quiet: "\<forall>s e'. (Call_print s, Raised e') \<notin> set (new_calls w w')"
    then have q3: "\<forall>s. (Call_print s, Raised e) \<notin> set tr3"
      and q4: "\<forall>s e. (Call_print s, Raised e) \<notin> set tr4"
      unfolding tr by auto
    from q3 3(4) have "files w3 = files w2" by auto
    moreover from q4 4(5) have "r = Inr ()" "stdout w' = stdout w3 @ error_lines e" by auto
    ultimately show "r = Inr () \<and>
            stdout w' = stdout w @ map (\<lambda>(sz, fn). created_line fn sz) (take k icons) @ error_lines e \<and>
            (\<forall>p. p \<notin> (\<lambda>(sz, fn). icon_path fn) ` set (take k icons) \<longrightarrow> files w' p = files w p)"
      using 1 2(4,5) 3(3) 4(4) by simp
  qed
  from handler a b c d e f show ?thesis by blast
qed

theorem batch_halts_at_failure_witness:
  "fst (script env_disk_full w0) = Inr () \<and>
   allocated (new_calls w0 (snd (script env_disk_full w0))) = [(16, 16), (32, 32), (48, 48)] \<and>
   saved (new_calls w0 (snd (script env_disk_full w0))) =
     [''extension/icons/icon16.png'', ''extension/icons/icon32.png''] \<and>
   files (snd (script env_disk_full w0)) ''extension/icons/icon16.png'' \<noteq> None \<and>
   files (snd (script env_disk_full w0)) ''extension/icons/icon32.png'' \<noteq> None \<and>
   files (snd (script env_disk_full w0)) ''extension/icons/icon48.png'' = None \<and>
   stdout (snd (script env_disk_full w0)) =
     [created_line ''icon16.png'' 16, created_line ''icon32.png'' 32] @
     error_lines (Exn OtherException ''No space left on device'')"
proof -
  let ?e = "Exn OtherException ''No space left on device''"
  let ?w1 = "snd (import_PIL env_disk_full w0)"
  let ?w2 = "snd (create_icons env_disk_full (take 2 icons) ?w1)"
  let ?w3 = "snd (create_icon env_disk_full 48 ''icon48.png'' ?w2)"
  have k: "2 < length icons" "icons ! 2 = (48, ''icon48.png'')" by (simp_all add: icons_def)
  have import: "import_PIL env_disk_full w0 = (Inr (), ?w1)"
    by (simp add: prod_eq_iff import_PIL_def lib_call_def env_disk_full_oracles)
  have before: "create_icons env_disk_full (take 2 icons) ?w1 = (Inr (), ?w2)"
    by (simp add: prod_eq_iff icons_def numeral_2_eq_2 run_defs env_disk_full_oracles font_size_small)
  have fails: "create_icon env_disk_full 48 ''icon48.png'' ?w2 = (Inl ?e, ?w3)"
    by (simp add: prod_eq_iff run_defs env_disk_full_oracles font_size_small)
  have run: "script env_disk_full w0 = (Inr (), snd (script env_disk_full w0))"
    by (simp add: prod_eq_iff script_disk_full)
  have j: "icons ! 0 = (16, ''icon16.png'')" "icons ! Suc 0 = (32, ''icon32.png'')"
    by (simp_all add: icons_def)
  from batch_halts_at_failure [OF k import before fails _ run]
  have "\<forall>j<2. files (snd (script env_disk_full w0)) (icon_path (snd (icons ! j))) \<noteq> None"
    by simp
  then have "files (snd (script env_disk_full w0)) (icon_path (snd (icons ! 0))) \<noteq> None"
    "files (snd (script env_disk_full w0)) (icon_path (snd (icons ! 1))) \<noteq> None"
    by simp_all
  then show ?thesis by (simp add: j icon_path_def script_disk_full)
qed

text \<open>
  C10: when the font loads and measuring \<^verbatim>\<open>'S'\<close> raises at the icon of index \<open>k\<close>, the
  call of \<open>create_icon\<close> raises that exception right after \<^verbatim>\<open>textbbox\<close>: nothing is drawn
  with an estimate, nothing saved or printed by it; the body of the \<^verbatim>\<open>try\<close> ends with this
  exception, with the bitmaps of the first \<open>k + 1\<close> icons allocated and the files of the first
  \<open>k\<close> saved, and the script goes on with the handler for the class of the exception. And in
  any run of \<open>create_icon\<close>, a \<^verbatim>\<open>draw.text\<close> without a font, which is the one placed by the
  estimate, happens only when \<^verbatim>\<open>load_default\<close> raised, and then nothing is measured.
\<close>

theorem textbbox_exception_halts_batch:
  assumes k: "k < length icons" "icons ! k = (sz, fn)"
    and import: "import_PIL env w = (Inr u, w1)"
    and before: "create_icons env (take k icons) w1 = (Inr v, w2)"
    and reached: "Image_new_fails env w2 (sz, sz) = None"
      "Draw_fails env (at_Draw sz w2) (blank ''RGB'' (sz, sz) hex_4285f4) = None"
      "load_default_fails env (at_load_default sz w2) = None"
    and raised: "textbbox_fails env (at_textbbox sz w2) (blank ''RGB'' (sz, sz) hex_4285f4)
                   (Some (default_font env)) = Some e"
    and other: "create_icon env' sz' fn' v0 = (r', v1)"
  shows "(\<exists>w3. create_icon env sz fn w2 = (Inl e, w3) \<and>
            new_calls w2 w3 =
              [(Call_Image_new ''RGB'' (sz, sz) hex_4285f4, Returned), (Call_Draw, Returned),
               (Call_load_default None, Returned),
               (Call_textbbox (0, 0) ''S'' (Some (default_font env)), Raised e)] \<and>
            files w3 = files w2 \<and> stdout w3 = stdout w2 \<and>
            try_body env w = (Inl e, w3) \<and>
            allocated (new_calls w w3) = map (\<lambda>(sz, fn). (sz, sz)) (take (Suc k) icons) \<and>
            saved (new_calls w w3) = map (\<lambda>(sz, fn). icon_path fn) (take k icons) \<and>
            script env w =
              (case exn_class e of
                 ImportError \<Rightarrow> print_all env import_error_lines w3
               | OtherException \<Rightarrow> print_all env (error_lines e) w3
               | NonException \<Rightarrow> (Inl e, w3))) \<and>
         (\<forall>xy s fill out. (Call_text xy s fill None, out) \<in> set (new_calls v0 v1) \<longrightarrow>
            (\<exists>e'. (Call_load_default None, Raised e') \<in> set (new_calls v0 v1)) \<and>
            (\<forall>a. (Call_load_default a, Returned) \<notin> set (new_calls v0 v1)) \<and>
            (\<forall>xy' s' f' out'. (Call_textbbox xy' s' f', out') \<notin> set (new_calls v0 v1)))"
proof
  let ?w3 = "log_call (Call_textbbox (0, 0) ''S'' (Some (default_font env))) (Raised e)
               (at_textbbox sz w2)"
  from k have "(sz, fn) \<in> set icons" by (metis nth_mem)
  then have fs: "font_size sz = Inr (3 * sz div 5)" by (rule font_size_icons)
  have icon: "create_icon env sz fn w2 = (Inl e, ?w3)"
    using reached(1,2) fs reached(3) raised by (rule bbox_raised_run)
  then have icon': "create_icon env (fst (icons ! k)) (snd (icons ! k)) w2 = (Inl e, ?w3)"
    by (simp add: k(2))
  have body: "try_body env w = (Inl e, ?w3)"
    using import k(1) before icon' by (rule try_body_stops)
  from import_PIL_cases[OF import] have 1: "calls w1 = calls w @ [(Call_import_PIL, Returned)]"
    by auto
  from create_icons_created[OF before] obtain tr where 2: "calls w2 = calls w1 @ tr"
    "allocated tr = map (\<lambda>(sz, fn). (sz, sz)) (take k icons)"
    "saved tr = map (\<lambda>(sz, fn). icon_path fn) (take k icons)"
    by blast
  let ?tr3 = "[(Call_Image_new ''RGB'' (sz, sz) hex_4285f4, Returned), (Call_Draw, Returned),
               (Call_load_default None, Returned),
               (Call_textbbox (0, 0) ''S'' (Some (default_font env)), Raised e)]"
  have 3: "calls ?w3 = calls w2 @ ?tr3" by simp
  have all: "calls ?w3 = calls w @ ((Call_import_PIL, Returned) # tr @ ?tr3)"
    using 1 2(1) by simp
  have take: "take (Suc k) icons = take k icons @ [(sz, fn)]"
    using k by (simp add: take_Suc_conv_app_nth)
  have "allocated (new_calls w ?w3) = map (\<lambda>(sz, fn). (sz, sz)) (take (Suc k) icons)"
    unfolding new_calls_append[OF all] take using 2(2) by simp
  moreover have "saved (new_calls w ?w3) = map (\<lambda>(sz, fn). icon_path fn) (take k icons)"
    unfolding new_calls_append[OF all] using 2(3) by simp
  moreover have "script env w =
              (case exn_class e of
                 ImportError \<Rightarrow> print_all env import_error_lines ?w3
               | OtherException \<Rightarrow> print_all env (error_lines e) ?w3
               | NonException \<Rightarrow> (Inl e, ?w3))"
    using body by (simp add: script_def)
  moreover have "new_calls w2 ?w3 = ?tr3" using 3 by (rule new_calls_append)
  moreover have "files ?w3 = files w2" "stdout ?w3 = stdout w2" by simp_all
  ultimately show "\<exists>w3. create_icon env sz fn w2 = (Inl e, w3) \<and>
            new_calls w2 w3 = ?tr3 \<and>
            files w3 = files w2 \<and> stdout w3 = stdout w2 \<and>
            try_body env w = (Inl e, w3) \<and>
            allocated (new_calls w w3) = map (\<lambda>(sz, fn). (sz, sz)) (take (Suc k) icons) \<and>
            saved (new_calls w w3) = map (\<lambda>(sz, fn). icon_path fn) (take k icons) \<and>
            script env w =
              (case exn_class e of
                 ImportError \<Rightarrow> print_all env import_error_lines w3
               | OtherException \<Rightarrow> print_all env (error_lines e) w3
               | NonException \<Rightarrow> (Inl e, w3))"
    using icon body by blast
next
  from other show "\<forall>xy s fill out. (Call_text xy s fill None, out) \<in> set (new_calls v0 v1) \<longrightarrow>
            (\<exists>e'. (Call_load_default None, Raised e') \<in> set (new_calls v0 v1)) \<and>
            (\<forall>a. (Call_load_default a, Returned) \<notin> set (new_calls v0 v1)) \<and>
            (\<forall>xy' s' f' out'. (Call_textbbox xy' s' f', out') \<notin> set (new_calls v0 v1))"
    by (cases rule: create_iconE) (auto simp: font_step_def)
qed

theorem textbbox_exception_halts_batch_witness:
  "fst (try_body env_bbox_fails w0) = Inl (Exn OtherException ''bad glyph'') \<and>
   fst (script env_bbox_fails w0) = Inr () \<and>
   allocated (new_calls w0 (snd (script env_bbox_fails w0))) = [(16, 16), (32, 32)] \<and>
   saved (new_calls w0 (snd (script env_bbox_fails w0))) = [''extension/icons/icon16.png''] \<and>
   stdout (snd (script env_bbox_fails w0)) =
     created_line ''icon16.png'' 16 # error_lines (Exn OtherException ''bad glyph'') \<and>
   (Call_text (6, 3) ''S'' white None, Returned)
     \<in> set (new_calls w0 (snd (create_icon env_no_font 16 ''icon16.png'' w0))) \<and>
   (Call_load_default None, Raised (Exn OtherException ''cannot open resource''))
     \<in> set (new_calls w0 (snd (create_icon env_no_font 16 ''icon16.png'' w0)))"
proof -
  let ?w1 = "snd (import_PIL env_bbox_fails w0)"
  let ?w2 = "snd (create_icons env_bbox_fails (take 1 icons) ?w1)"
  have k: "1 < length icons" "icons ! 1 = (32, ''icon32.png'')" by (simp_all add: icons_def)
  have import: "import_PIL env_bbox_fails w0 = (Inr (), ?w1)"
    by (simp add: prod_eq_iff import_PIL_def lib_call_def env_bbox_fails_oracles)
  have before: "create_icons env_bbox_fails (take 1 icons) ?w1 = (Inr (), ?w2)"
    by (simp add: prod_eq_iff icons_def run_defs env_bbox_fails_oracles font_size_small)
  have raised: "textbbox_fails env_bbox_fails (at_textbbox 32 ?w2)
      (blank ''RGB'' (32, 32) hex_4285f4) (Some (default_font env_bbox_fails)) =
      Some (Exn OtherException ''bad glyph'')"
    by (simp add: env_bbox_fails_oracles)
  from textbbox_exception_halts_batch [OF k import before _ _ _ raised run16_no_font]
  show ?thesis
    by (auto simp: env_bbox_fails_oracles script_bbox_fails icon16_no_font)
qed

end
